theory Spec2Isabelle
  imports Complex_Main "HOL-Library.Char_ord" "HOL-Library.List_Lexorder"
begin

section \<open>Numeric conventions\<close>

text \<open>
  The C++ \<^verbatim>\<open>int\<close> values of the program (pulse widths, stick axes, channel numbers) are
  modelled as \<^typ>\<open>int\<close>; the program never relies on wrap-around.  The \<^verbatim>\<open>float\<close> and
  \<^verbatim>\<open>double\<close> values are modelled as \<^typ>\<open>real\<close>, i.e. with exact arithmetic: rounding of
  the binary formats, infinities and NaN are outside this development.  The real number
  \<open>0\<close> stands for the float \<open>+0.0\<close>.
\<close>

text \<open>\<^verbatim>\<open>static_cast<int>(float)\<close>: truncation towards zero.\<close>

definition static_cast_int :: "real \<Rightarrow> int" where
  "static_cast_int r = (if 0 \<le> r then \<lfloor>r\<rfloor> else \<lceil>r\<rceil>)"

section \<open>The parameter record (config.h, config.cpp)\<close>

record AppConfig =
  pwm_min :: int
  pwm_neutral :: int
  pwm_normal_max :: int
  pwm_boost_max :: int
  pwm_frequency :: real
  joystick_deadzone :: int
  led_pwm_channel :: int
  led_pwm_on :: int
  led_pwm_off :: int
  led2_pwm_channel :: int
  led2_pwm_off :: int
  led2_pwm_on1 :: int
  led2_pwm_on2 :: int
  led2_pwm_max :: int
  led3_pwm_channel :: int
  led3_pwm_off :: int
  led3_pwm_on1 :: int
  led3_pwm_on2 :: int
  led3_pwm_max :: int
  led4_pwm_channel :: int
  led4_pwm_off :: int
  led4_pwm_on1 :: int
  led4_pwm_on2 :: int
  led4_pwm_max :: int
  led5_pwm_channel :: int
  led5_pwm_off :: int
  led5_pwm_on1 :: int
  led5_pwm_on2 :: int
  led5_pwm_max :: int
  smoothing_factor_horizontal :: real
  smoothing_factor_vertical :: real
  kp_roll :: real
  kp_yaw :: real
  yaw_threshold_dps :: real
  yaw_gain :: real
  network_recv_port :: int
  network_send_port :: int
  client_host :: string
  connection_timeout_seconds :: real
  sensor_send_interval :: nat
  loop_delay_us :: nat
  gst1_device :: string
  gst1_port :: int
  gst1_width :: int
  gst1_height :: int
  gst1_framerate_num :: int
  gst1_framerate_den :: int
  gst1_is_h264_native_source :: bool
  gst1_rtp_payload_type :: int
  gst1_rtp_config_interval :: int
  gst2_device :: string
  gst2_port :: int
  gst2_width :: int
  gst2_height :: int
  gst2_framerate_num :: int
  gst2_framerate_den :: int
  gst2_is_h264_native_source :: bool
  gst2_rtp_payload_type :: int
  gst2_rtp_config_interval :: int
  gst2_x264_bitrate :: int
  gst2_x264_tune :: string
  gst2_x264_speed_preset :: string
  config_sync_cpp_recv_port :: int
  config_sync_wpf_host :: string
  config_sync_wpf_recv_port :: int

text \<open>The constructor \<^verbatim>\<open>AppConfig::AppConfig()\<close>: the default values.\<close>

definition AppConfig_default :: AppConfig where
  "AppConfig_default = \<lparr>
     pwm_min = 1100, pwm_neutral = 1500, pwm_normal_max = 1900, pwm_boost_max = 1900,
     pwm_frequency = 50,
     joystick_deadzone = 6500,
     led_pwm_channel = 9, led_pwm_on = 1900, led_pwm_off = 1100,
     led2_pwm_channel = 10, led2_pwm_off = 1100, led2_pwm_on1 = 1300, led2_pwm_on2 = 1600,
     led2_pwm_max = 1900,
     led3_pwm_channel = 11, led3_pwm_off = 1100, led3_pwm_on1 = 1300, led3_pwm_on2 = 1600,
     led3_pwm_max = 1900,
     led4_pwm_channel = 12, led4_pwm_off = 1100, led4_pwm_on1 = 1300, led4_pwm_on2 = 1600,
     led4_pwm_max = 1900,
     led5_pwm_channel = 13, led5_pwm_off = 1100, led5_pwm_on1 = 1300, led5_pwm_on2 = 1600,
     led5_pwm_max = 1900,
     smoothing_factor_horizontal = 8 / 100, smoothing_factor_vertical = 4 / 100,
     kp_roll = 2 / 10, kp_yaw = 15 / 100, yaw_threshold_dps = 1 / 2, yaw_gain = 1000,
     network_recv_port = 12345, network_send_port = 12346, client_host = ''192.168.4.10'',
     connection_timeout_seconds = 2 / 10,
     sensor_send_interval = 10, loop_delay_us = 10000,
     gst1_device = ''/dev/video2'', gst1_port = 5000,
     gst1_width = 1280, gst1_height = 720, gst1_framerate_num = 30, gst1_framerate_den = 1,
     gst1_is_h264_native_source = True, gst1_rtp_payload_type = 96,
     gst1_rtp_config_interval = 1,
     gst2_device = ''/dev/video6'', gst2_port = 5001,
     gst2_width = 1280, gst2_height = 720, gst2_framerate_num = 30, gst2_framerate_den = 1,
     gst2_is_h264_native_source = False, gst2_rtp_payload_type = 96,
     gst2_rtp_config_interval = 1,
     gst2_x264_bitrate = 5000, gst2_x264_tune = ''zerolatency'',
     gst2_x264_speed_preset = ''superfast'',
     config_sync_cpp_recv_port = 12348, config_sync_wpf_host = ''192.168.4.10'',
     config_sync_wpf_recv_port = 12347 \<rparr>"

section \<open>Thruster control (thruster_control.cpp)\<close>

subsection \<open>Data\<close>

datatype LedState = LedOFF | LedON | LedON1 | LedON2 | LedMAX

text \<open>The three-axis sample of bindings.h / sensor_data.h.\<close>

record AxisData =
  axis_x :: real
  axis_y :: real
  axis_z :: real

text \<open>
  Modelled from the spec: \<^verbatim>\<open>struct GamepadData\<close> of gamepad.h (not in the sources at hand):
  two stick axis pairs in the range \<open>\<plusminus>32768\<close> and a button bitmask.  The value-initialised
  sample \<^verbatim>\<open>GamepadData{}\<close> has every member zero.
\<close>

record GamepadData =
  leftThumbX :: int
  leftThumbY :: int
  rightThumbX :: int
  rightThumbY :: int
  buttons :: nat

definition GamepadData_zero :: GamepadData where
  "GamepadData_zero =
     \<lparr> leftThumbX = 0, leftThumbY = 0, rightThumbX = 0, rightThumbY = 0, buttons = 0 \<rparr>"

text \<open>
  The button masks \<^verbatim>\<open>GamepadButton::Y\<close>, \<^verbatim>\<open>DPadUp\<close>, ... of gamepad.h are constants that
  are not in the sources at hand; they are a parameter of the model.
\<close>

record GamepadButton =
  Y_mask :: nat
  DPadUp_mask :: nat
  DPadDown_mask :: nat
  DPadLeft_mask :: nat
  DPadRight_mask :: nat

text \<open>\<^verbatim>\<open>(buttons & mask)\<close> converted to \<^verbatim>\<open>bool\<close>.\<close>

definition button_pressed :: "nat \<Rightarrow> nat \<Rightarrow> bool" where
  "button_pressed b msk = (and b msk \<noteq> 0)"

text \<open>
  The hardware driver (bindings.h) is external.  Its state is what the program has told
  it: the enable flag, the frequency, and the sequence of duty-cycle commands
  \<^verbatim>\<open>set_pwm_channel_duty_cycle(channel, duty)\<close>, oldest first.
\<close>

record Driver =
  pwm_enable :: bool
  pwm_freq_hz :: real
  duty_writes :: "(int \<times> real) list"

definition set_pwm_enable :: "bool \<Rightarrow> Driver \<Rightarrow> Driver" where
  "set_pwm_enable b d = d\<lparr>pwm_enable := b\<rparr>"

definition set_pwm_freq_hz :: "real \<Rightarrow> Driver \<Rightarrow> Driver" where
  "set_pwm_freq_hz f d = d\<lparr>pwm_freq_hz := f\<rparr>"

definition set_pwm_channel_duty_cycle :: "int \<Rightarrow> real \<Rightarrow> Driver \<Rightarrow> Driver" where
  "set_pwm_channel_duty_cycle channel duty_cycle d =
     d\<lparr>duty_writes := duty_writes d @ [(channel, duty_cycle)]\<rparr>"

text \<open>
  The file-scope and function-scope statics of thruster_control.cpp, the driver, and the
  snapshot file \<^verbatim>\<open>/tmp/rov_led_state.dat\<close> (\<open>None\<close>: the file does not exist).
\<close>

record Thruster =
  current_pwm_values :: "nat \<Rightarrow> real"
  current_led_state :: LedState
  current_led2_state :: LedState
  current_led3_state :: LedState
  current_led4_state :: LedState
  current_led5_state :: LedState
  y_button_previously_pressed :: bool
  dpad_up_button_previously_pressed :: bool
  dpad_down_button_previously_pressed :: bool
  dpad_left_button_previously_pressed :: bool
  dpad_right_button_previously_pressed :: bool
  driver :: Driver
  led_state_file :: "LedState list option"

definition NUM_THRUSTERS :: nat where
  "NUM_THRUSTERS = 6"

subsection \<open>Helpers\<close>

definition map_value :: "real \<Rightarrow> real \<Rightarrow> real \<Rightarrow> real \<Rightarrow> real \<Rightarrow> real" where
  "map_value v in_min in_max out_min out_max =
     (if in_max = in_min then out_min
      else (let c = max in_min (min v in_max)
            in (c - in_min) * (out_max - out_min) / (in_max - in_min) + out_min))"

definition smooth_interpolate :: "real \<Rightarrow> real \<Rightarrow> real \<Rightarrow> real" where
  "smooth_interpolate current_value target_value smoothing_factor =
     current_value + (target_value - current_value) * smoothing_factor"

definition set_thruster_pwm :: "AppConfig \<Rightarrow> int \<Rightarrow> int \<Rightarrow> Driver \<Rightarrow> Driver" where
  "set_thruster_pwm g channel pulse_width_us d =
     (let clamped_pwm = max (pwm_min g) (min pulse_width_us (pwm_boost_max g));
          duty_cycle = real_of_int clamped_pwm / (1000000 / pwm_frequency g)
      in set_pwm_channel_duty_cycle channel duty_cycle d)"

text \<open>One iteration of the loops \<^verbatim>\<open>for (i = 0; i < NUM_THRUSTERS; ++i)\<close> that program a
  thruster channel and reset its smoothing value.\<close>

definition set_channel :: "AppConfig \<Rightarrow> int \<Rightarrow> Thruster \<Rightarrow> nat \<Rightarrow> Thruster" where
  "set_channel g pwm_value t i =
     t\<lparr> driver := set_thruster_pwm g (int i) pwm_value (driver t),
        current_pwm_values := (current_pwm_values t)(i := real_of_int pwm_value) \<rparr>"

definition thruster_set_all_pwm :: "AppConfig \<Rightarrow> int \<Rightarrow> Thruster \<Rightarrow> Thruster" where
  "thruster_set_all_pwm g pwm_value t = foldl (set_channel g pwm_value) t [0..<NUM_THRUSTERS]"

text \<open>The PWM constant of an accessory state: LED 1 and LEDs 2 to 5.\<close>

definition led1_pwm :: "int \<Rightarrow> int \<Rightarrow> LedState \<Rightarrow> int" where
  "led1_pwm on_value off_value st = (if st = LedON then on_value else off_value)"

definition ledn_pwm :: "int \<Rightarrow> int \<Rightarrow> int \<Rightarrow> int \<Rightarrow> LedState \<Rightarrow> int" where
  "ledn_pwm off_value on1_value on2_value max_value st =
     (if st = LedON1 then on1_value
      else if st = LedON2 then on2_value
      else if st = LedMAX then max_value
      else off_value)"

text \<open>The state an accessory takes on a rising edge: LED 1 and LEDs 2 to 5.\<close>

definition led1_next :: "LedState \<Rightarrow> LedState" where
  "led1_next st = (if st = LedOFF then LedON else LedOFF)"

definition ledn_next :: "LedState \<Rightarrow> LedState" where
  "ledn_next st =
     (if st = LedOFF then LedON1
      else if st = LedON1 then LedON2
      else if st = LedON2 then LedMAX
      else LedOFF)"

subsection \<open>Initialisation and shutdown of the module\<close>

text \<open>Programs the five accessory channels from the five current states.\<close>

definition apply_led_pwm :: "AppConfig \<Rightarrow> Thruster \<Rightarrow> Driver \<Rightarrow> Driver" where
  "apply_led_pwm g t d =
     (let d1 = set_thruster_pwm g (led_pwm_channel g)
                 (led1_pwm (led_pwm_on g) (led_pwm_off g) (current_led_state t)) d;
          d2 = set_thruster_pwm g (led2_pwm_channel g)
                 (ledn_pwm (led2_pwm_off g) (led2_pwm_on1 g) (led2_pwm_on2 g) (led2_pwm_max g)
                    (current_led2_state t)) d1;
          d3 = set_thruster_pwm g (led3_pwm_channel g)
                 (ledn_pwm (led3_pwm_off g) (led3_pwm_on1 g) (led3_pwm_on2 g) (led3_pwm_max g)
                    (current_led3_state t)) d2;
          d4 = set_thruster_pwm g (led4_pwm_channel g)
                 (ledn_pwm (led4_pwm_off g) (led4_pwm_on1 g) (led4_pwm_on2 g) (led4_pwm_max g)
                    (current_led4_state t)) d3
      in set_thruster_pwm g (led5_pwm_channel g)
           (ledn_pwm (led5_pwm_off g) (led5_pwm_on1 g) (led5_pwm_on2 g) (led5_pwm_max g)
              (current_led5_state t)) d4)"

text \<open>
  \<^verbatim>\<open>thruster_init\<close>.  The snapshot file, when it exists, is read as five state values
  (a shorter file fails the read and leaves the states at OFF) and is then removed.
\<close>

definition thruster_init :: "AppConfig \<Rightarrow> Thruster \<Rightarrow> Thruster" where
  "thruster_init g t =
     (let t1 = t\<lparr>driver := set_pwm_freq_hz (pwm_frequency g) (set_pwm_enable True (driver t))\<rparr>;
          t2 = foldl (set_channel g (pwm_min g)) t1 [0..<NUM_THRUSTERS];
          t3 = t2\<lparr> current_led_state := LedOFF, current_led2_state := LedOFF,
                   current_led3_state := LedOFF, current_led4_state := LedOFF,
                   current_led5_state := LedOFF \<rparr>;
          t4 = (case led_state_file t3 of
                  None \<Rightarrow> t3
                | Some states \<Rightarrow>
                    (if 5 \<le> length states
                     then t3\<lparr> current_led_state := states ! 0,
                              current_led2_state := states ! 1,
                              current_led3_state := states ! 2,
                              current_led4_state := states ! 3,
                              current_led5_state := states ! 4 \<rparr>
                     else t3) \<lparr> led_state_file := None \<rparr>)
      in t4\<lparr>driver := apply_led_pwm g t4 (driver t4)\<rparr>)"

definition thruster_disable :: "AppConfig \<Rightarrow> Thruster \<Rightarrow> Thruster" where
  "thruster_disable g t =
     (let t1 = foldl (set_channel g (pwm_min g)) t [0..<NUM_THRUSTERS];
          d1 = set_thruster_pwm g (led_pwm_channel g) (led_pwm_off g) (driver t1);
          d2 = set_thruster_pwm g (led2_pwm_channel g) (led2_pwm_off g) d1;
          d3 = set_thruster_pwm g (led3_pwm_channel g) (led3_pwm_off g) d2;
          d4 = set_thruster_pwm g (led4_pwm_channel g) (led4_pwm_off g) d3;
          d5 = set_thruster_pwm g (led5_pwm_channel g) (led5_pwm_off g) d4
      in t1\<lparr>driver := set_pwm_enable False d5\<rparr>)"

definition thruster_save_led_state_to_file :: "Thruster \<Rightarrow> Thruster" where
  "thruster_save_led_state_to_file t =
     t\<lparr> led_state_file := Some [current_led_state t, current_led2_state t,
                                 current_led3_state t, current_led4_state t,
                                 current_led5_state t] \<rparr>"

subsection \<open>The horizontal mixer\<close>

text \<open>The contribution arrays \<^verbatim>\<open>pwm_lx\<close> (rotation) and \<^verbatim>\<open>pwm_rx\<close> (strafe) of
  \<^verbatim>\<open>update_horizontal_thrusters\<close>.\<close>

definition pwm_lx :: "AppConfig \<Rightarrow> GamepadData \<Rightarrow> int list" where
  "pwm_lx g data =
     (if leftThumbX data < - joystick_deadzone g then
        (let val = static_cast_int
                     (map_value (real_of_int (leftThumbX data)) (- 32768)
                        (real_of_int (- joystick_deadzone g))
                        (real_of_int (pwm_normal_max g)) (real_of_int (pwm_min g)))
         in [pwm_min g, val, val, pwm_min g])
      else if leftThumbX data > joystick_deadzone g then
        (let val = static_cast_int
                     (map_value (real_of_int (leftThumbX data))
                        (real_of_int (joystick_deadzone g)) 32767
                        (real_of_int (pwm_min g)) (real_of_int (pwm_normal_max g)))
         in [val, pwm_min g, pwm_min g, val])
      else [pwm_min g, pwm_min g, pwm_min g, pwm_min g])"

definition pwm_rx :: "AppConfig \<Rightarrow> GamepadData \<Rightarrow> int list" where
  "pwm_rx g data =
     (if rightThumbX data < - joystick_deadzone g then
        (let val = static_cast_int
                     (map_value (real_of_int (rightThumbX data)) (- 32768)
                        (real_of_int (- joystick_deadzone g))
                        (real_of_int (pwm_normal_max g)) (real_of_int (pwm_min g)))
         in [pwm_min g, val, pwm_min g, val])
      else if rightThumbX data > joystick_deadzone g then
        (let val = static_cast_int
                     (map_value (real_of_int (rightThumbX data))
                        (real_of_int (joystick_deadzone g)) 32767
                        (real_of_int (pwm_min g)) (real_of_int (pwm_normal_max g)))
         in [val, pwm_min g, val, pwm_min g])
      else [pwm_min g, pwm_min g, pwm_min g, pwm_min g])"

definition lx_active :: "AppConfig \<Rightarrow> GamepadData \<Rightarrow> bool" where
  "lx_active g data = (\<bar>leftThumbX data\<bar> > joystick_deadzone g)"

definition rx_active :: "AppConfig \<Rightarrow> GamepadData \<Rightarrow> bool" where
  "rx_active g data = (\<bar>rightThumbX data\<bar> > joystick_deadzone g)"

definition boost_add :: "AppConfig \<Rightarrow> GamepadData \<Rightarrow> int" where
  "boost_add g data =
     (let boost_range = pwm_boost_max g - pwm_normal_max g;
          abs_lx = \<bar>leftThumbX data\<bar>;
          abs_rx = \<bar>rightThumbX data\<bar>;
          weaker_input_abs = min abs_lx abs_rx
      in static_cast_int
           (map_value (real_of_int weaker_input_abs) (real_of_int (joystick_deadzone g)) 32768
              0 (real_of_int boost_range)))"

text \<open>Lines 188 to 273: the target array after the two contributions are combined.\<close>

definition combine_contributions :: "AppConfig \<Rightarrow> GamepadData \<Rightarrow> int list" where
  "combine_contributions g data =
     (let l = pwm_lx g data; r = pwm_rx g data
      in if lx_active g data \<and> rx_active g data then
           (let b = boost_add g data
            in if leftThumbX data < 0 \<and> rightThumbX data < 0 then
                 [max (l ! 0) (r ! 0), max (l ! 1) (r ! 1) + b,
                  max (l ! 2) (r ! 2), max (l ! 3) (r ! 3)]
               else if leftThumbX data < 0 \<and> rightThumbX data > 0 then
                 [max (l ! 0) (r ! 0), max (l ! 1) (r ! 1),
                  max (l ! 2) (r ! 2) + b, max (l ! 3) (r ! 3)]
               else if leftThumbX data > 0 \<and> rightThumbX data < 0 then
                 [max (l ! 0) (r ! 0), max (l ! 1) (r ! 1),
                  max (l ! 2) (r ! 2), max (l ! 3) (r ! 3) + b]
               else
                 [max (l ! 0) (r ! 0) + b, max (l ! 1) (r ! 1),
                  max (l ! 2) (r ! 2), max (l ! 3) (r ! 3)])
         else [max (l ! 0) (r ! 0), max (l ! 1) (r ! 1),
               max (l ! 2) (r ! 2), max (l ! 3) (r ! 3)])"

text \<open>Lines 275 to 297: roll and yaw correction while the strafe axis is active.\<close>

definition roll_yaw_correction ::
  "AppConfig \<Rightarrow> GamepadData \<Rightarrow> AxisData \<Rightarrow> int list \<Rightarrow> int list" where
  "roll_yaw_correction g data gyro_data tgt =
     (if rx_active g data then
        (let correction_pwm_roll = static_cast_int (axis_x gyro_data * kp_roll g);
             correction_pwm_yaw = static_cast_int (axis_z gyro_data * kp_yaw g)
         in [tgt ! 0 - correction_pwm_roll - correction_pwm_yaw,
             tgt ! 1 + correction_pwm_roll + correction_pwm_yaw,
             tgt ! 2 + correction_pwm_roll + correction_pwm_yaw,
             tgt ! 3 - correction_pwm_roll - correction_pwm_yaw])
      else tgt)"

text \<open>Lines 299 to 322: yaw correction while the rotation axis is inactive.\<close>

definition idle_yaw_correction ::
  "AppConfig \<Rightarrow> GamepadData \<Rightarrow> AxisData \<Rightarrow> int list \<Rightarrow> int list" where
  "idle_yaw_correction g data gyro_data tgt =
     (if \<not> lx_active g data then
        (let yaw_rate = - axis_z gyro_data
         in if \<bar>yaw_rate\<bar> > yaw_threshold_dps g then
              (let yaw_pwm = max (- 400) (min 400 (static_cast_int (yaw_rate * - yaw_gain g)))
               in if yaw_pwm < 0 then
                    [min (pwm_boost_max g) (tgt ! 0 + \<bar>yaw_pwm\<bar>), tgt ! 1, tgt ! 2,
                     min (pwm_boost_max g) (tgt ! 3 + \<bar>yaw_pwm\<bar>)]
                  else
                    [tgt ! 0, min (pwm_boost_max g) (tgt ! 1 + yaw_pwm),
                     min (pwm_boost_max g) (tgt ! 2 + yaw_pwm), tgt ! 3])
            else tgt)
      else tgt)"

text \<open>\<^verbatim>\<open>update_horizontal_thrusters\<close>: the value of \<^verbatim>\<open>target_pwm_out[0..3]\<close> on return.\<close>

definition update_horizontal_thrusters :: "AppConfig \<Rightarrow> GamepadData \<Rightarrow> AxisData \<Rightarrow> int list" where
  "update_horizontal_thrusters g data gyro_data =
     idle_yaw_correction g data gyro_data
       (roll_yaw_correction g data gyro_data (combine_contributions g data))"

definition calculate_forward_reverse_pwm :: "AppConfig \<Rightarrow> int \<Rightarrow> int" where
  "calculate_forward_reverse_pwm g v =
     (if v \<le> joystick_deadzone g then pwm_min g
      else static_cast_int
             (map_value (real_of_int v) (real_of_int (joystick_deadzone g)) 32767
                (real_of_int (pwm_min g)) (real_of_int (pwm_boost_max g))))"

subsection \<open>The per-tick update\<close>

text \<open>Lines 355 to 378: the smoothing of the six current values.\<close>

definition smooth_horizontal :: "AppConfig \<Rightarrow> int list \<Rightarrow> (nat \<Rightarrow> real) \<Rightarrow> nat \<Rightarrow> nat \<Rightarrow> real" where
  "smooth_horizontal g tgt cur i =
     cur(i := smooth_interpolate (cur i) (real_of_int (tgt ! i)) (smoothing_factor_horizontal g))"

definition smooth_vertical :: "AppConfig \<Rightarrow> real \<Rightarrow> (nat \<Rightarrow> real) \<Rightarrow> nat \<Rightarrow> nat \<Rightarrow> real" where
  "smooth_vertical g target_forward_val cur i =
     (if target_forward_val > cur i
      then cur(i := smooth_interpolate (cur i) target_forward_val (smoothing_factor_vertical g))
      else cur(i := target_forward_val))"

definition smooth_all :: "AppConfig \<Rightarrow> int list \<Rightarrow> int \<Rightarrow> (nat \<Rightarrow> real) \<Rightarrow> nat \<Rightarrow> real" where
  "smooth_all g target_horizontal_pwm target_forward_pwm cur =
     (let cur4 = foldl (smooth_horizontal g target_horizontal_pwm) cur [0..<4];
          target_forward_val = real_of_int target_forward_pwm;
          cur5 = smooth_vertical g target_forward_val cur4 4
      in smooth_vertical g target_forward_val cur5 5)"

text \<open>Lines 384 to 394: the six thruster channels are programmed; channels 4 and 5
  both from \<^verbatim>\<open>current_pwm_values[4]\<close>.\<close>

definition send_thrusters :: "AppConfig \<Rightarrow> (nat \<Rightarrow> real) \<Rightarrow> Driver \<Rightarrow> Driver" where
  "send_thrusters g cur d =
     (let d4 = foldl (\<lambda>d i. set_thruster_pwm g (int i) (static_cast_int (cur i)) d) d [0..<4];
          smoothed_forward_pwm = static_cast_int (cur 4)
      in set_thruster_pwm g 5 smoothed_forward_pwm
           (set_thruster_pwm g 4 smoothed_forward_pwm d4))"

text \<open>Lines 401 to 531: the edge detection of the five accessory buttons.  Each block
  advances its state on a rising edge and stores the button for the next call.\<close>

definition led_edge :: "bool \<Rightarrow> bool \<Rightarrow> bool" where
  "led_edge currently_pressed previously_pressed = (currently_pressed \<and> \<not> previously_pressed)"

definition update_led_states :: "GamepadButton \<Rightarrow> GamepadData \<Rightarrow> Thruster \<Rightarrow> Thruster" where
  "update_led_states B gamepad_data t =
     (let y = button_pressed (buttons gamepad_data) (Y_mask B);
          up = button_pressed (buttons gamepad_data) (DPadUp_mask B);
          down = button_pressed (buttons gamepad_data) (DPadDown_mask B);
          left = button_pressed (buttons gamepad_data) (DPadLeft_mask B);
          right = button_pressed (buttons gamepad_data) (DPadRight_mask B)
      in t\<lparr> current_led_state :=
               (if led_edge y (y_button_previously_pressed t)
                then led1_next (current_led_state t) else current_led_state t),
             y_button_previously_pressed := y,
             current_led2_state :=
               (if led_edge up (dpad_up_button_previously_pressed t)
                then ledn_next (current_led2_state t) else current_led2_state t),
             dpad_up_button_previously_pressed := up,
             current_led3_state :=
               (if led_edge down (dpad_down_button_previously_pressed t)
                then ledn_next (current_led3_state t) else current_led3_state t),
             dpad_down_button_previously_pressed := down,
             current_led4_state :=
               (if led_edge left (dpad_left_button_previously_pressed t)
                then ledn_next (current_led4_state t) else current_led4_state t),
             dpad_left_button_previously_pressed := left,
             current_led5_state :=
               (if led_edge right (dpad_right_button_previously_pressed t)
                then ledn_next (current_led5_state t) else current_led5_state t),
             dpad_right_button_previously_pressed := right \<rparr>)"

text \<open>\<^verbatim>\<open>thruster_update\<close>.  The accessory channels are programmed after the thruster
  channels, each from the state its own block has just computed; the five blocks touch
  disjoint variables, so the states are updated first and the five writes follow in the
  order of the source.\<close>

definition thruster_update ::
  "AppConfig \<Rightarrow> GamepadButton \<Rightarrow> GamepadData \<Rightarrow> AxisData \<Rightarrow> Thruster \<Rightarrow> Thruster" where
  "thruster_update g B gamepad_data gyro_data t =
     (let target_horizontal_pwm = update_horizontal_thrusters g gamepad_data gyro_data;
          target_forward_pwm = calculate_forward_reverse_pwm g (rightThumbY gamepad_data);
          cur = smooth_all g target_horizontal_pwm target_forward_pwm (current_pwm_values t);
          t1 = t\<lparr> current_pwm_values := cur, driver := send_thrusters g cur (driver t) \<rparr>;
          t2 = update_led_states B gamepad_data t1
      in t2\<lparr> driver := apply_led_pwm g t2 (driver t2) \<rparr>)"

section \<open>Reading the parameter file (config.cpp)\<close>

subsection \<open>Strings\<close>

text \<open>The characters of \<^verbatim>\<open>" \t\n\r\f\v"\<close>.\<close>

definition is_space :: "char \<Rightarrow> bool" where
  "is_space c = (c \<in> set [CHR '' '', CHR 0x09, CHR 0x0A, CHR 0x0D, CHR 0x0C, CHR 0x0B])"

text \<open>\<^verbatim>\<open>trim\<close>: a string without any non-blank character is returned as it is.\<close>

definition trim :: "string \<Rightarrow> string" where
  "trim str =
     (if list_all is_space str then str
      else rev (dropWhile is_space (rev (dropWhile is_space str))))"

text \<open>\<^verbatim>\<open>std::tolower\<close> in the C locale, and \<^verbatim>\<open>toLower\<close>.\<close>

definition tolower :: "char \<Rightarrow> char" where
  "tolower c =
     (case map_of (zip ''ABCDEFGHIJKLMNOPQRSTUVWXYZ'' ''abcdefghijklmnopqrstuvwxyz'') c of
        Some l \<Rightarrow> l
      | None \<Rightarrow> c)"

definition toLower :: "string \<Rightarrow> string" where
  "toLower s = map tolower s"

text \<open>\<^verbatim>\<open>s.find(c, pos)\<close> (\<open>None\<close> for \<^verbatim>\<open>npos\<close>) and \<^verbatim>\<open>s.substr(pos, len)\<close> for
  \<open>pos \<le> length s\<close>, the only way the program calls it.\<close>

definition str_find :: "char \<Rightarrow> nat \<Rightarrow> string \<Rightarrow> nat option" where
  "str_find c pos s =
     (if c \<in> set (drop pos s) then Some (pos + length (takeWhile (\<lambda>a. a \<noteq> c) (drop pos s)))
      else None)"

definition substr :: "string \<Rightarrow> nat \<Rightarrow> nat \<Rightarrow> string" where
  "substr s pos len = take len (drop pos s)"

text \<open>The lines that successive calls of \<^verbatim>\<open>std::getline\<close> return on a text: split at
  the newline character; a final line without newline is returned, an empty rest is not.\<close>

fun getlines_from :: "string \<Rightarrow> string \<Rightarrow> string list" where
  "getlines_from acc [] = (if acc = [] then [] else [rev acc])"
| "getlines_from acc (c # cs) =
     (if c = CHR 0x0A then rev acc # getlines_from [] cs else getlines_from (c # acc) cs)"

definition getlines :: "string \<Rightarrow> string list" where
  "getlines s = getlines_from [] s"

subsection \<open>Numeric conversions\<close>

text \<open>
  \<^verbatim>\<open>std::stoi\<close>, \<^verbatim>\<open>std::stoul\<close>, \<^verbatim>\<open>std::stof\<close> and \<^verbatim>\<open>std::stod\<close> belong to the C++
  library, not to the program; they are a parameter of the model.  Each returns the
  converted value or throws one of two exceptions.
\<close>

datatype conv_error = invalid_argument | out_of_range

record StdConv =
  stoi :: "string \<Rightarrow> conv_error + int"
  stoul :: "string \<Rightarrow> conv_error + nat"
  stof :: "string \<Rightarrow> conv_error + real"
  stod :: "string \<Rightarrow> conv_error + real"

text \<open>An assignment \<^verbatim>\<open>temp_config.field = std::stoi(value)\<close> and its siblings: the
  exception leaves the \<^verbatim>\<open>try\<close> block.  An \<^verbatim>\<open>unsigned long\<close> is narrowed to the 32-bit
  \<^verbatim>\<open>unsigned int\<close> member.\<close>

definition stoi_to :: "StdConv \<Rightarrow> string \<Rightarrow> (int \<Rightarrow> AppConfig) \<Rightarrow> conv_error + AppConfig" where
  "stoi_to L v f = (case stoi L v of Inl e \<Rightarrow> Inl e | Inr n \<Rightarrow> Inr (f n))"

definition stoul_to :: "StdConv \<Rightarrow> string \<Rightarrow> (nat \<Rightarrow> AppConfig) \<Rightarrow> conv_error + AppConfig" where
  "stoul_to L v f = (case stoul L v of Inl e \<Rightarrow> Inl e | Inr n \<Rightarrow> Inr (f (n mod 4294967296)))"

definition stof_to :: "StdConv \<Rightarrow> string \<Rightarrow> (real \<Rightarrow> AppConfig) \<Rightarrow> conv_error + AppConfig" where
  "stof_to L v f = (case stof L v of Inl e \<Rightarrow> Inl e | Inr r \<Rightarrow> Inr (f r))"

definition stod_to :: "StdConv \<Rightarrow> string \<Rightarrow> (real \<Rightarrow> AppConfig) \<Rightarrow> conv_error + AppConfig" where
  "stod_to L v f = (case stod L v of Inl e \<Rightarrow> Inl e | Inr r \<Rightarrow> Inr (f r))"

subsection \<open>One key of one section\<close>

definition assign_pwm :: "StdConv \<Rightarrow> string \<Rightarrow> string \<Rightarrow> AppConfig \<Rightarrow> conv_error + AppConfig" where
  "assign_pwm L key v c =
     (if key = ''pwm_min'' then stoi_to L v (\<lambda>n. c\<lparr>pwm_min := n\<rparr>)
      else if key = ''pwm_neutral'' then stoi_to L v (\<lambda>n. c\<lparr>pwm_neutral := n\<rparr>)
      else if key = ''pwm_normal_max'' then stoi_to L v (\<lambda>n. c\<lparr>pwm_normal_max := n\<rparr>)
      else if key = ''pwm_boost_max'' then stoi_to L v (\<lambda>n. c\<lparr>pwm_boost_max := n\<rparr>)
      else if key = ''pwm_frequency'' then stof_to L v (\<lambda>r. c\<lparr>pwm_frequency := r\<rparr>)
      else Inr c)"

definition assign_joystick :: "StdConv \<Rightarrow> string \<Rightarrow> string \<Rightarrow> AppConfig \<Rightarrow> conv_error + AppConfig" where
  "assign_joystick L key v c =
     (if key = ''deadzone'' then stoi_to L v (\<lambda>n. c\<lparr>joystick_deadzone := n\<rparr>)
      else Inr c)"

definition assign_led :: "StdConv \<Rightarrow> string \<Rightarrow> string \<Rightarrow> AppConfig \<Rightarrow> conv_error + AppConfig" where
  "assign_led L key v c =
     (if key = ''channel'' then stoi_to L v (\<lambda>n. c\<lparr>led_pwm_channel := n\<rparr>)
      else if key = ''on_value'' then stoi_to L v (\<lambda>n. c\<lparr>led_pwm_on := n\<rparr>)
      else if key = ''off_value'' then stoi_to L v (\<lambda>n. c\<lparr>led_pwm_off := n\<rparr>)
      else Inr c)"

definition assign_led2 :: "StdConv \<Rightarrow> string \<Rightarrow> string \<Rightarrow> AppConfig \<Rightarrow> conv_error + AppConfig" where
  "assign_led2 L key v c =
     (if key = ''channel'' then stoi_to L v (\<lambda>n. c\<lparr>led2_pwm_channel := n\<rparr>)
      else if key = ''off_value'' then stoi_to L v (\<lambda>n. c\<lparr>led2_pwm_off := n\<rparr>)
      else if key = ''on1_value'' then stoi_to L v (\<lambda>n. c\<lparr>led2_pwm_on1 := n\<rparr>)
      else if key = ''on2_value'' then stoi_to L v (\<lambda>n. c\<lparr>led2_pwm_on2 := n\<rparr>)
      else if key = ''max_value'' then stoi_to L v (\<lambda>n. c\<lparr>led2_pwm_max := n\<rparr>)
      else Inr c)"

definition assign_led3 :: "StdConv \<Rightarrow> string \<Rightarrow> string \<Rightarrow> AppConfig \<Rightarrow> conv_error + AppConfig" where
  "assign_led3 L key v c =
     (if key = ''channel'' then stoi_to L v (\<lambda>n. c\<lparr>led3_pwm_channel := n\<rparr>)
      else if key = ''off_value'' then stoi_to L v (\<lambda>n. c\<lparr>led3_pwm_off := n\<rparr>)
      else if key = ''on1_value'' then stoi_to L v (\<lambda>n. c\<lparr>led3_pwm_on1 := n\<rparr>)
      else if key = ''on2_value'' then stoi_to L v (\<lambda>n. c\<lparr>led3_pwm_on2 := n\<rparr>)
      else if key = ''max_value'' then stoi_to L v (\<lambda>n. c\<lparr>led3_pwm_max := n\<rparr>)
      else Inr c)"

definition assign_led4 :: "StdConv \<Rightarrow> string \<Rightarrow> string \<Rightarrow> AppConfig \<Rightarrow> conv_error + AppConfig" where
  "assign_led4 L key v c =
     (if key = ''channel'' then stoi_to L v (\<lambda>n. c\<lparr>led4_pwm_channel := n\<rparr>)
      else if key = ''off_value'' then stoi_to L v (\<lambda>n. c\<lparr>led4_pwm_off := n\<rparr>)
      else if key = ''on1_value'' then stoi_to L v (\<lambda>n. c\<lparr>led4_pwm_on1 := n\<rparr>)
      else if key = ''on2_value'' then stoi_to L v (\<lambda>n. c\<lparr>led4_pwm_on2 := n\<rparr>)
      else if key = ''max_value'' then stoi_to L v (\<lambda>n. c\<lparr>led4_pwm_max := n\<rparr>)
      else Inr c)"

definition assign_led5 :: "StdConv \<Rightarrow> string \<Rightarrow> string \<Rightarrow> AppConfig \<Rightarrow> conv_error + AppConfig" where
  "assign_led5 L key v c =
     (if key = ''channel'' then stoi_to L v (\<lambda>n. c\<lparr>led5_pwm_channel := n\<rparr>)
      else if key = ''off_value'' then stoi_to L v (\<lambda>n. c\<lparr>led5_pwm_off := n\<rparr>)
      else if key = ''on1_value'' then stoi_to L v (\<lambda>n. c\<lparr>led5_pwm_on1 := n\<rparr>)
      else if key = ''on2_value'' then stoi_to L v (\<lambda>n. c\<lparr>led5_pwm_on2 := n\<rparr>)
      else if key = ''max_value'' then stoi_to L v (\<lambda>n. c\<lparr>led5_pwm_max := n\<rparr>)
      else Inr c)"

definition assign_thruster_control ::
  "StdConv \<Rightarrow> string \<Rightarrow> string \<Rightarrow> AppConfig \<Rightarrow> conv_error + AppConfig" where
  "assign_thruster_control L key v c =
     (if key = ''smoothing_factor_horizontal''
        then stof_to L v (\<lambda>r. c\<lparr>smoothing_factor_horizontal := r\<rparr>)
      else if key = ''smoothing_factor_vertical''
        then stof_to L v (\<lambda>r. c\<lparr>smoothing_factor_vertical := r\<rparr>)
      else if key = ''kp_roll'' then stof_to L v (\<lambda>r. c\<lparr>kp_roll := r\<rparr>)
      else if key = ''kp_yaw'' then stof_to L v (\<lambda>r. c\<lparr>kp_yaw := r\<rparr>)
      else if key = ''yaw_threshold_dps'' then stof_to L v (\<lambda>r. c\<lparr>yaw_threshold_dps := r\<rparr>)
      else if key = ''yaw_gain'' then stof_to L v (\<lambda>r. c\<lparr>yaw_gain := r\<rparr>)
      else Inr c)"

definition assign_network :: "StdConv \<Rightarrow> string \<Rightarrow> string \<Rightarrow> AppConfig \<Rightarrow> conv_error + AppConfig" where
  "assign_network L key v c =
     (if key = ''recv_port'' then stoi_to L v (\<lambda>n. c\<lparr>network_recv_port := n\<rparr>)
      else if key = ''send_port'' then stoi_to L v (\<lambda>n. c\<lparr>network_send_port := n\<rparr>)
      else if key = ''client_host'' then Inr (c\<lparr>client_host := v\<rparr>)
      else if key = ''connection_timeout_seconds''
        then stod_to L v (\<lambda>r. c\<lparr>connection_timeout_seconds := r\<rparr>)
      else Inr c)"

definition assign_application :: "StdConv \<Rightarrow> string \<Rightarrow> string \<Rightarrow> AppConfig \<Rightarrow> conv_error + AppConfig" where
  "assign_application L key v c =
     (if key = ''sensor_send_interval'' then stoul_to L v (\<lambda>n. c\<lparr>sensor_send_interval := n\<rparr>)
      else if key = ''loop_delay_us'' then stoul_to L v (\<lambda>n. c\<lparr>loop_delay_us := n\<rparr>)
      else Inr c)"

definition assign_gstreamer_camera_1 ::
  "StdConv \<Rightarrow> string \<Rightarrow> string \<Rightarrow> AppConfig \<Rightarrow> conv_error + AppConfig" where
  "assign_gstreamer_camera_1 L key v c =
     (if key = ''port'' then stoi_to L v (\<lambda>n. c\<lparr>gst1_port := n\<rparr>)
      else if key = ''width'' then stoi_to L v (\<lambda>n. c\<lparr>gst1_width := n\<rparr>)
      else if key = ''height'' then stoi_to L v (\<lambda>n. c\<lparr>gst1_height := n\<rparr>)
      else if key = ''framerate_num'' then stoi_to L v (\<lambda>n. c\<lparr>gst1_framerate_num := n\<rparr>)
      else if key = ''framerate_den'' then stoi_to L v (\<lambda>n. c\<lparr>gst1_framerate_den := n\<rparr>)
      else if key = ''is_h264_native_source''
        then Inr (c\<lparr>gst1_is_h264_native_source := (toLower v = ''true'')\<rparr>)
      else if key = ''rtp_payload_type'' then stoi_to L v (\<lambda>n. c\<lparr>gst1_rtp_payload_type := n\<rparr>)
      else if key = ''rtp_config_interval''
        then stoi_to L v (\<lambda>n. c\<lparr>gst1_rtp_config_interval := n\<rparr>)
      else Inr c)"

definition assign_gstreamer_camera_2 ::
  "StdConv \<Rightarrow> string \<Rightarrow> string \<Rightarrow> AppConfig \<Rightarrow> conv_error + AppConfig" where
  "assign_gstreamer_camera_2 L key v c =
     (if key = ''port'' then stoi_to L v (\<lambda>n. c\<lparr>gst2_port := n\<rparr>)
      else if key = ''width'' then stoi_to L v (\<lambda>n. c\<lparr>gst2_width := n\<rparr>)
      else if key = ''height'' then stoi_to L v (\<lambda>n. c\<lparr>gst2_height := n\<rparr>)
      else if key = ''framerate_num'' then stoi_to L v (\<lambda>n. c\<lparr>gst2_framerate_num := n\<rparr>)
      else if key = ''framerate_den'' then stoi_to L v (\<lambda>n. c\<lparr>gst2_framerate_den := n\<rparr>)
      else if key = ''is_h264_native_source''
        then Inr (c\<lparr>gst2_is_h264_native_source := (toLower v = ''true'')\<rparr>)
      else if key = ''rtp_payload_type'' then stoi_to L v (\<lambda>n. c\<lparr>gst2_rtp_payload_type := n\<rparr>)
      else if key = ''rtp_config_interval''
        then stoi_to L v (\<lambda>n. c\<lparr>gst2_rtp_config_interval := n\<rparr>)
      else if key = ''x264_bitrate'' then stoi_to L v (\<lambda>n. c\<lparr>gst2_x264_bitrate := n\<rparr>)
      else if key = ''x264_tune'' then Inr (c\<lparr>gst2_x264_tune := v\<rparr>)
      else if key = ''x264_speed_preset'' then Inr (c\<lparr>gst2_x264_speed_preset := v\<rparr>)
      else Inr c)"

definition assign_config_sync :: "StdConv \<Rightarrow> string \<Rightarrow> string \<Rightarrow> AppConfig \<Rightarrow> conv_error + AppConfig" where
  "assign_config_sync L key v c =
     (if key = ''cpp_recv_port'' then stoi_to L v (\<lambda>n. c\<lparr>config_sync_cpp_recv_port := n\<rparr>)
      else if key = ''wpf_host'' then Inr (c\<lparr>config_sync_wpf_host := v\<rparr>)
      else if key = ''wpf_recv_port'' then stoi_to L v (\<lambda>n. c\<lparr>config_sync_wpf_recv_port := n\<rparr>)
      else Inr c)"

text \<open>The body of the \<^verbatim>\<open>try\<close> block: the chain over the sections.\<close>

definition assign_key ::
  "StdConv \<Rightarrow> string \<Rightarrow> string \<Rightarrow> string \<Rightarrow> AppConfig \<Rightarrow> conv_error + AppConfig" where
  "assign_key L current_section key v c =
     (if current_section = ''pwm'' then assign_pwm L key v c
      else if current_section = ''joystick'' then assign_joystick L key v c
      else if current_section = ''led'' then assign_led L key v c
      else if current_section = ''led2'' then assign_led2 L key v c
      else if current_section = ''led3'' then assign_led3 L key v c
      else if current_section = ''led4'' then assign_led4 L key v c
      else if current_section = ''led5'' then assign_led5 L key v c
      else if current_section = ''thruster_control'' then assign_thruster_control L key v c
      else if current_section = ''network'' then assign_network L key v c
      else if current_section = ''application'' then assign_application L key v c
      else if current_section = ''gstreamer_camera_1'' then assign_gstreamer_camera_1 L key v c
      else if current_section = ''gstreamer_camera_2'' then assign_gstreamer_camera_2 L key v c
      else if current_section = ''config_sync'' then assign_config_sync L key v c
      else Inr c)"

subsection \<open>\<^verbatim>\<open>loadConfig\<close>\<close>

text \<open>One iteration of the \<^verbatim>\<open>while (std::getline(file, line))\<close> loop on the pair of
  \<^verbatim>\<open>temp_config\<close> and \<^verbatim>\<open>current_section\<close>; \<open>Inl\<close> is the \<^verbatim>\<open>return false\<close> of the two
  \<^verbatim>\<open>catch\<close> clauses.\<close>

definition parse_line ::
  "StdConv \<Rightarrow> AppConfig \<times> string \<Rightarrow> string \<Rightarrow> conv_error + (AppConfig \<times> string)" where
  "parse_line L st raw =
     (let line = trim raw; temp_config = fst st; current_section = snd st
      in if line = [] \<or> hd line = CHR ''#'' \<or> hd line = CHR '';'' then Inr st
         else if hd line = CHR ''['' \<and> last line = CHR '']''
           then Inr (temp_config, toLower (substr line 1 (length line - 2)))
         else (case str_find CHR ''='' 0 line of
                 None \<Rightarrow> Inr st
               | Some eq_pos \<Rightarrow>
                   (let key = toLower (trim (substr line 0 eq_pos));
                        v = trim (drop (eq_pos + 1) line)
                    in case assign_key L current_section key v temp_config of
                         Inl e \<Rightarrow> Inl e
                       | Inr temp_config' \<Rightarrow> Inr (temp_config', current_section))))"

fun parse_lines ::
  "StdConv \<Rightarrow> AppConfig \<times> string \<Rightarrow> string list \<Rightarrow> conv_error + (AppConfig \<times> string)" where
  "parse_lines L st [] = Inr st"
| "parse_lines L st (l # ls) =
     (case parse_line L st l of Inl e \<Rightarrow> Inl e | Inr st' \<Rightarrow> parse_lines L st' ls)"

text \<open>\<^verbatim>\<open>loadConfig\<close>: the file (\<open>None\<close> when it cannot be opened) and the global record
  \<^verbatim>\<open>g_config\<close> go in; the return value and the global record come out.  The lock only
  protects the single assignment and is not modelled.\<close>

definition loadConfig :: "StdConv \<Rightarrow> string option \<Rightarrow> AppConfig \<Rightarrow> bool \<times> AppConfig" where
  "loadConfig L file g_config =
     (case file of
        None \<Rightarrow> (False, g_config)
      | Some content \<Rightarrow>
          (case parse_lines L (AppConfig_default, []) (getlines content) of
             Inl e \<Rightarrow> (False, g_config)
           | Inr st \<Rightarrow> (True, fst st)))"

section \<open>The configuration synchroniser (config_synchronizer.cpp)\<close>

text \<open>
  A \<^verbatim>\<open>std::map\<close> is an association list kept in the order of its keys; for
  \<^verbatim>\<open>std::string\<close> keys that is the lexicographic order of the bytes.  \<open>map_set\<close> is the
  assignment \<^verbatim>\<open>m[k] = v\<close>: it replaces the value of an existing key and inserts a new key
  at its place.
\<close>

fun map_set :: "('k::linorder \<times> 'v) list \<Rightarrow> 'k \<Rightarrow> 'v \<Rightarrow> ('k \<times> 'v) list" where
  "map_set [] k v = [(k, v)]"
| "map_set ((k', v') # m) k v =
     (if k < k' then (k, v) # (k', v') # m
      else if k = k' then (k, v) # m
      else (k', v') # map_set m k v)"

type_synonym SectionMap = "(string \<times> (string \<times> string) list) list"

text \<open>\<^verbatim>\<open>g_sync_config_data[section][key] = value\<close>: the inner map is created empty when
  the section is new.\<close>

definition set_entry :: "SectionMap \<Rightarrow> string \<Rightarrow> string \<Rightarrow> string \<Rightarrow> SectionMap" where
  "set_entry m section key v =
     map_set m section
       (map_set (case map_of m section of None \<Rightarrow> [] | Some kv \<Rightarrow> kv) key v)"

text \<open>What the synchroniser works on: its section map, the parameter file on disk
  (\<open>None\<close>: absent), whether the file can be opened for writing, and the flag
  \<^verbatim>\<open>g_config_updated_flag\<close> that it shares with the control loop.\<close>

record Sync =
  g_sync_config_data :: SectionMap
  config_file :: "string option"
  config_file_writable :: bool
  updated_flag :: bool

text \<open>\<^verbatim>\<open>load_config\<close>: one line of the file, and the whole file.\<close>

definition load_line :: "SectionMap \<times> string \<Rightarrow> string \<Rightarrow> SectionMap \<times> string" where
  "load_line st raw =
     (let line = trim raw; m = fst st; current_section = snd st
      in if line = [] \<or> hd line = CHR ''#'' \<or> hd line = CHR '';'' then st
         else if hd line = CHR ''['' \<and> last line = CHR '']''
           then (m, substr line 1 (length line - 2))
         else (case str_find CHR ''='' 0 line of
                 None \<Rightarrow> st
               | Some eq_pos \<Rightarrow>
                   (set_entry m current_section (trim (substr line 0 eq_pos))
                      (trim (drop (eq_pos + 1) line)), current_section)))"

definition load_config :: "Sync \<Rightarrow> bool \<times> Sync" where
  "load_config s =
     (case config_file s of
        None \<Rightarrow> (False, s)
      | Some content \<Rightarrow>
          (True, s\<lparr>g_sync_config_data := fst (foldl load_line ([], []) (getlines content))\<rparr>))"

text \<open>The text that \<^verbatim>\<open>save_config\<close> writes, and \<^verbatim>\<open>save_config\<close>.\<close>

definition render_section :: "string \<times> (string \<times> string) list \<Rightarrow> string" where
  "render_section sec =
     ''['' @ fst sec @ '']'' @ [CHR 0x0A]
       @ concat (map (\<lambda>kv. fst kv @ '' = '' @ snd kv @ [CHR 0x0A]) (snd sec))
       @ [CHR 0x0A]"

definition render_config :: "SectionMap \<Rightarrow> string" where
  "render_config m = concat (map render_section m)"

definition save_config :: "Sync \<Rightarrow> Sync" where
  "save_config s =
     (if \<not> config_file_writable s then s
      else s\<lparr>config_file := Some (render_config (g_sync_config_data s))\<rparr>)"

text \<open>The payload part of \<^verbatim>\<open>serialize_config\<close> (the length header precedes it).\<close>

definition serialize_payload :: "SectionMap \<Rightarrow> string" where
  "serialize_payload m =
     concat (map (\<lambda>sec. concat (map (\<lambda>kv. ''['' @ fst sec @ '']'' @ fst kv @ ''='' @ snd kv
                                              @ [CHR 0x0A]) (snd sec))) m)"

text \<open>
  \<^verbatim>\<open>update_config_from_string\<close>.  \<open>entry_of\<close> is the test and the three \<^verbatim>\<open>substr\<close> calls
  of the loop body: the section, key and value of a line that is applied, \<open>None\<close> for a
  line that is passed over.  \<open>update_line\<close> is the loop body on the pair of the map and
  \<^verbatim>\<open>updates_count\<close>.
\<close>

definition entry_of :: "string \<Rightarrow> (string \<times> string \<times> string) option" where
  "entry_of line =
     (if line = [] \<or> hd line \<noteq> CHR ''['' then None
      else (case str_find CHR '']'' 0 line of
              None \<Rightarrow> None
            | Some section_end \<Rightarrow>
                (case str_find CHR ''='' section_end line of
                   None \<Rightarrow> None
                 | Some equals_pos \<Rightarrow>
                     Some (substr line 1 (section_end - 1),
                           substr line (section_end + 1) (equals_pos - (section_end + 1)),
                           drop (equals_pos + 1) line))))"

definition update_line :: "SectionMap \<times> nat \<Rightarrow> string \<Rightarrow> SectionMap \<times> nat" where
  "update_line st line =
     (case entry_of line of
        None \<Rightarrow> st
      | Some (section, key, v) \<Rightarrow> (set_entry (fst st) section key v, snd st + 1))"

definition update_config_from_string :: "string \<Rightarrow> Sync \<Rightarrow> Sync" where
  "update_config_from_string data s =
     (let st = foldl update_line (g_sync_config_data s, 0) (getlines data);
          s1 = s\<lparr>g_sync_config_data := fst st\<rparr>
      in if snd st > 0 then (save_config s1)\<lparr>updated_flag := True\<rparr> else s1)"

section \<open>The control loop (main.cpp)\<close>

subsection \<open>State and environment\<close>

record timeval =
  tv_sec :: int
  tv_usec :: int

text \<open>
  Modelled from the spec: \<^verbatim>\<open>struct NetworkContext\<close> of network.h (not in the sources at
  hand), as far as the loop reads it: whether a peer address has ever been observed and
  the time of the last successful receive.
\<close>

record NetworkContext =
  client_addr_known :: bool
  last_successful_recv_time :: timeval

text \<open>
  The variables of \<^verbatim>\<open>main\<close> and the globals it uses, the statics of the thruster module,
  the datagrams sent so far, and the three external resources that the clean-up releases.
\<close>

record Main =
  g_config :: AppConfig
  g_config_updated_flag :: bool
  net_ctx :: NetworkContext
  latest_gamepad_data :: GamepadData
  current_gyro_data :: AxisData
  loop_counter :: nat
  running :: bool
  currently_in_failsafe :: bool
  prev_accel_z_sign :: real
  thr :: Thruster
  sent :: "string list"
  sync_thread_running :: bool
  network_open :: bool
  gst_pipelines_running :: bool

text \<open>
  What one iteration of the loop obtains from outside: the content of \<^verbatim>\<open>config.ini\<close>
  (read only when a reload is due), the clock, the result of \<^verbatim>\<open>network_receive\<close> with
  the time it stamps and the sample that \<^verbatim>\<open>parseGamepadData\<close> makes of the datagram, the
  gyro and accelerometer readings, and the telemetry line (\<open>None\<close> when formatting fails).
\<close>

record Tick =
  config_ini :: "string option"
  current_time_tv :: timeval
  recv_len :: int
  recv_stamp :: timeval
  received_gamepad :: GamepadData
  gyro_reading :: AxisData
  accel_reading :: AxisData
  sensor_text :: "string option"

text \<open>
  Modelled from the spec: \<^verbatim>\<open>network_receive\<close> of network.cpp (not in the sources at
  hand).  A received datagram makes the peer known and stamps the time of the receive;
  without a datagram the context is unchanged.
\<close>

definition network_receive :: "Tick \<Rightarrow> NetworkContext \<Rightarrow> NetworkContext" where
  "network_receive e ctx =
     (if recv_len e > 0
      then ctx\<lparr>client_addr_known := True, last_successful_recv_time := recv_stamp e\<rparr>
      else ctx)"

text \<open>Modelled from the spec: \<^verbatim>\<open>network_init\<close> of network.cpp (not in the sources at
  hand) leaves a context in which no peer has been observed.\<close>

definition network_init :: NetworkContext where
  "network_init =
     \<lparr> client_addr_known = False, last_successful_recv_time = \<lparr> tv_sec = 0, tv_usec = 0 \<rparr> \<rparr>"

subsection \<open>The status line\<close>

definition led_state_to_string :: "LedState \<Rightarrow> string" where
  "led_state_to_string st =
     (case st of LedOFF \<Rightarrow> ''pwm_off'' | LedON \<Rightarrow> ''pwm_on'' | LedON1 \<Rightarrow> ''pwm_on1''
               | LedON2 \<Rightarrow> ''pwm_on2'' | LedMAX \<Rightarrow> ''pwm_max'')"

definition get_led_state_string :: "Thruster \<Rightarrow> string" where
  "get_led_state_string t =
     ''led_status:led='' @ led_state_to_string (current_led_state t)
       @ '',led2='' @ led_state_to_string (current_led2_state t)
       @ '',led3='' @ led_state_to_string (current_led3_state t)
       @ '',led4='' @ led_state_to_string (current_led4_state t)
       @ '',led5='' @ led_state_to_string (current_led5_state t)"

subsection \<open>One iteration\<close>

text \<open>Lines 95 to 104: the hot reload.  The flag is cleared whatever \<^verbatim>\<open>loadConfig\<close>
  returns.\<close>

definition reload_phase :: "StdConv \<Rightarrow> Tick \<Rightarrow> Main \<Rightarrow> Main" where
  "reload_phase L e s =
     (if g_config_updated_flag s
      then s\<lparr> g_config := snd (loadConfig L (config_ini e) (g_config s)),
              g_config_updated_flag := False \<rparr>
      else s)"

text \<open>Lines 106 to 153: the clock, the receive and the connection timeout.  The
  arguments are the copies of the timeout and of \<open>pwm_min\<close> that the iteration took
  before the reload.\<close>

definition time_since_last_packet :: "Tick \<Rightarrow> NetworkContext \<Rightarrow> real" where
  "time_since_last_packet e ctx =
     (if client_addr_known ctx
      then real_of_int (tv_sec (current_time_tv e) - tv_sec (last_successful_recv_time ctx))
           + real_of_int (tv_usec (current_time_tv e) - tv_usec (last_successful_recv_time ctx))
             / 1000000
      else 0)"

definition network_phase :: "Tick \<Rightarrow> real \<Rightarrow> int \<Rightarrow> Main \<Rightarrow> Main" where
  "network_phase e current_connection_timeout current_pwm_min s =
     (let elapsed = time_since_last_packet e (net_ctx s);
          s1 = s\<lparr>net_ctx := network_receive e (net_ctx s)\<rparr>
      in if recv_len e > 0 then
           (if currently_in_failsafe s1
            then s1\<lparr> currently_in_failsafe := False,
                     sent := sent s1 @ [get_led_state_string (thr s1)],
                     latest_gamepad_data := received_gamepad e \<rparr>
            else s1\<lparr> latest_gamepad_data := received_gamepad e \<rparr>)
         else if client_addr_known (net_ctx s1) \<and> elapsed > current_connection_timeout
                 \<and> \<not> currently_in_failsafe s1 then
           s1\<lparr> thr := thruster_set_all_pwm (g_config s1) current_pwm_min (thr s1),
                latest_gamepad_data := GamepadData_zero,
                currently_in_failsafe := True,
                running := False \<rparr>
         else s1)"

text \<open>\<^verbatim>\<open>std::copysign(1.0f, z)\<close> on the reals.\<close>

definition copysign1 :: "real \<Rightarrow> real" where
  "copysign1 r = (if r < 0 then - 1 else 1)"

text \<open>Lines 160 to 172: the sign check on the vertical acceleration.\<close>

definition accel_check :: "Tick \<Rightarrow> Main \<Rightarrow> Main" where
  "accel_check e s =
     (let current_accel_z_sign = copysign1 (axis_z (accel_reading e));
          s1 = (if prev_accel_z_sign s = 0 then s\<lparr>prev_accel_z_sign := current_accel_z_sign\<rparr>
                else if current_accel_z_sign \<noteq> prev_accel_z_sign s
                        \<and> axis_z (accel_reading e) \<noteq> 0
                  then s\<lparr>running := False\<rparr>
                else s)
      in s1\<lparr>prev_accel_z_sign := current_accel_z_sign\<rparr>)"

text \<open>Lines 174 to 190: the telemetry counter.\<close>

definition telemetry :: "Tick \<Rightarrow> nat \<Rightarrow> Main \<Rightarrow> Main" where
  "telemetry e current_sensor_send_interval s =
     (if loop_counter s \<ge> current_sensor_send_interval
      then (case sensor_text e of
              Some line \<Rightarrow> s\<lparr>loop_counter := 0, sent := sent s @ [line]\<rparr>
            | None \<Rightarrow> s\<lparr>loop_counter := 0\<rparr>)
      else s\<lparr>loop_counter := loop_counter s + 1\<rparr>)"

text \<open>Lines 155 to 195.\<close>

definition control_phase :: "GamepadButton \<Rightarrow> Tick \<Rightarrow> nat \<Rightarrow> Main \<Rightarrow> Main" where
  "control_phase B e current_sensor_send_interval s =
     (if \<not> currently_in_failsafe s \<and> running s then
        (let s1 = s\<lparr> current_gyro_data := gyro_reading e,
                     thr := thruster_update (g_config s) B (latest_gamepad_data s)
                              (gyro_reading e) (thr s) \<rparr>
         in telemetry e current_sensor_send_interval (accel_check e s1))
      else s\<lparr>loop_counter := 0\<rparr>)"

text \<open>The body of \<^verbatim>\<open>while (running)\<close>.\<close>

definition main_tick :: "StdConv \<Rightarrow> GamepadButton \<Rightarrow> Tick \<Rightarrow> Main \<Rightarrow> Main" where
  "main_tick L B e s =
     (let current_connection_timeout = connection_timeout_seconds (g_config s);
          current_sensor_send_interval = sensor_send_interval (g_config s);
          current_pwm_min = pwm_min (g_config s)
      in control_phase B e current_sensor_send_interval
           (network_phase e current_connection_timeout current_pwm_min (reload_phase L e s)))"


subsection \<open>Start and clean-up\<close>

text \<open>
  The state in which the loop is entered (lines 61 to 77) when the start-up succeeded:
  the parameters as loaded, the thruster module initialised and all thrusters at
  \<open>pwm_min\<close>.  The gamepad sample is not read before the first datagram replaces it.
\<close>

definition main_start :: "AppConfig \<Rightarrow> Thruster \<Rightarrow> Main" where
  "main_start g t =
     \<lparr> g_config = g,
       g_config_updated_flag = False,
       net_ctx = network_init,
       latest_gamepad_data = GamepadData_zero,
       current_gyro_data = \<lparr> axis_x = 0, axis_y = 0, axis_z = 0 \<rparr>,
       loop_counter = 0,
       running = True,
       currently_in_failsafe = True,
       prev_accel_z_sign = 0,
       thr = thruster_set_all_pwm g (pwm_min g) (thruster_init g t),
       sent = [],
       sync_thread_running = True,
       network_open = True,
       gst_pipelines_running = True \<rparr>"

text \<open>Lines 200 to 219: the clean-up after the loop.\<close>

definition cleanup :: "Main \<Rightarrow> Main" where
  "cleanup s =
     (let s1 = s\<lparr>sync_thread_running := False\<rparr>;
          final_pwm_min = pwm_min (g_config s1);
          s2 = s1\<lparr>thr := thruster_set_all_pwm (g_config s1) final_pwm_min (thr s1)\<rparr>;
          s3 = s2\<lparr>thr := thruster_disable (g_config s2) (thr s2)\<rparr>;
          s4 = s3\<lparr>network_open := False\<rparr>
      in s4\<lparr>gst_pipelines_running := False\<rparr>)"

section \<open>Predicates used in the statements\<close>

text \<open>A duty-cycle command is in range when it is the duty cycle of some pulse width
  between \<open>pwm_min\<close> and \<open>pwm_boost_max\<close>; \<open>writes_ok g d d'\<close> says that the driver
  state \<open>d'\<close> extends \<open>d\<close> by commands in range only.\<close>

definition emitted_ok :: "AppConfig \<Rightarrow> int \<times> real \<Rightarrow> bool" where
  "emitted_ok g w =
     (\<exists>c. pwm_min g \<le> c \<and> c \<le> pwm_boost_max g \<and>
          snd w = real_of_int c / (1000000 / pwm_frequency g))"

definition writes_ok :: "AppConfig \<Rightarrow> Driver \<Rightarrow> Driver \<Rightarrow> bool" where
  "writes_ok g d d' =
     (\<exists>ws. duty_writes d' = duty_writes d @ ws \<and> (\<forall>w \<in> set ws. emitted_ok g w))"

text \<open>A driver to which nothing has been sent yet.\<close>

definition driver0 :: Driver where
  "driver0 = \<lparr> pwm_enable = False, pwm_freq_hz = 0, duty_writes = [] \<rparr>"


text \<open>The channel that receives the boost, by the signs of the two axes.\<close>

definition boosted_channel :: "GamepadData \<Rightarrow> nat" where
  "boosted_channel data =
     (if leftThumbX data < 0 \<and> rightThumbX data < 0 then 1
      else if leftThumbX data < 0 \<and> rightThumbX data > 0 then 2
      else if leftThumbX data > 0 \<and> rightThumbX data < 0 then 3
      else 0)"

text \<open>A sample with both horizontal axes active, a record with a non-empty boost range,
  and the gyro at rest.\<close>

definition sample_both :: GamepadData where
  "sample_both = \<lparr> leftThumbX = - 32768, leftThumbY = 0, rightThumbX = 32767, rightThumbY = 0,
                    buttons = 0 \<rparr>"

definition cfg_boost :: AppConfig where
  "cfg_boost = AppConfig_default\<lparr>pwm_boost_max := 2000\<rparr>"

definition gyro_zero :: AxisData where
  "gyro_zero = \<lparr> axis_x = 0, axis_y = 0, axis_z = 0 \<rparr>"

text \<open>The number of rising edges in a sequence of button readings, given the reading
  before the first; a run of \<^verbatim>\<open>thruster_update\<close> calls, each with the parameters in force
  at that tick; and the readings of one button over such a run.\<close>

fun rising_edges :: "bool \<Rightarrow> bool list \<Rightarrow> nat" where
  "rising_edges previously_pressed [] = 0"
| "rising_edges previously_pressed (b # bs) =
     (if b \<and> \<not> previously_pressed then 1 else 0) + rising_edges b bs"

definition run_updates ::
  "GamepadButton \<Rightarrow> (AppConfig \<times> GamepadData \<times> AxisData) list \<Rightarrow> Thruster \<Rightarrow> Thruster" where
  "run_updates B ticks t = foldl (\<lambda>t (g, gp, gy). thruster_update g B gp gy t) t ticks"

definition presses :: "nat \<Rightarrow> (AppConfig \<times> GamepadData \<times> AxisData) list \<Rightarrow> bool list" where
  "presses msk ticks = map (\<lambda>(g, gp, gy). button_pressed (buttons gp) msk) ticks"

text \<open>Button masks for evaluation (the XInput values).\<close>

definition xinput_buttons :: GamepadButton where
  "xinput_buttons = \<lparr> Y_mask = 32768, DPadUp_mask = 1, DPadDown_mask = 2, DPadLeft_mask = 4,
                       DPadRight_mask = 8 \<rparr>"

text \<open>The statics of thruster_control.cpp at program start.\<close>

definition thruster0 :: Thruster where
  "thruster0 =
     \<lparr> current_pwm_values = (\<lambda>i. 0),
       current_led_state = LedOFF, current_led2_state = LedOFF, current_led3_state = LedOFF,
       current_led4_state = LedOFF, current_led5_state = LedOFF,
       y_button_previously_pressed = False, dpad_up_button_previously_pressed = False,
       dpad_down_button_previously_pressed = False, dpad_left_button_previously_pressed = False,
       dpad_right_button_previously_pressed = False,
       driver = driver0, led_state_file = None \<rparr>"

text \<open>Library conversions for evaluation: only \<open>1150\<close> converts.\<close>

definition demo_conv :: StdConv where
  "demo_conv =
     \<lparr> stoi = (\<lambda>s. if s = ''1150'' then Inr 1150 else Inl invalid_argument),
       stoul = (\<lambda>s. Inl invalid_argument),
       stof = (\<lambda>s. Inl invalid_argument),
       stod = (\<lambda>s. Inl invalid_argument) \<rparr>"

text \<open>An iteration without datagram at time 101 s, and a loop state with a peer last
  heard at time 100 s, in normal operation with the default parameters.\<close>

definition tick_silent :: Tick where
  "tick_silent =
     \<lparr> config_ini = None,
       current_time_tv = \<lparr> tv_sec = 101, tv_usec = 0 \<rparr>,
       recv_len = - 1,
       recv_stamp = \<lparr> tv_sec = 101, tv_usec = 0 \<rparr>,
       received_gamepad = GamepadData_zero,
       gyro_reading = gyro_zero,
       accel_reading = \<lparr> axis_x = 0, axis_y = 0, axis_z = 0 \<rparr>,
       sensor_text = None \<rparr>"

definition main_connected :: Main where
  "main_connected =
     (main_start AppConfig_default thruster0)
       \<lparr> net_ctx := \<lparr> client_addr_known = True,
                      last_successful_recv_time = \<lparr> tv_sec = 100, tv_usec = 0 \<rparr> \<rparr>,
         currently_in_failsafe := False \<rparr>"


text \<open>An iteration is in normal operation when the loop is running and, after the
  receive, is outside failsafe: a datagram has arrived, or the loop was outside failsafe
  and the connection timeout does not fire.\<close>

definition normal_operation :: "Tick \<Rightarrow> Main \<Rightarrow> bool" where
  "normal_operation e s =
     (running s \<and>
      (recv_len e > 0 \<or>
       (\<not> currently_in_failsafe s \<and>
        \<not> (client_addr_known (net_ctx s) \<and>
           time_since_last_packet e (net_ctx s) > connection_timeout_seconds (g_config s)))))"

text \<open>An iteration with a datagram at time 100.01 s and a vertical acceleration of
  exactly zero.\<close>

definition tick_level :: Tick where
  "tick_level =
     \<lparr> config_ini = None,
       current_time_tv = \<lparr> tv_sec = 100, tv_usec = 10000 \<rparr>,
       recv_len = 10,
       recv_stamp = \<lparr> tv_sec = 100, tv_usec = 10000 \<rparr>,
       received_gamepad = GamepadData_zero,
       gyro_reading = gyro_zero,
       accel_reading = \<lparr> axis_x = 0, axis_y = 0, axis_z = 0 \<rparr>,
       sensor_text = None \<rparr>"


text \<open>The same loop state with accessory 2 at ON1.\<close>

definition main_led2_on :: Main where
  "main_led2_on = main_connected\<lparr>thr := (thr main_connected)\<lparr>current_led2_state := LedON1\<rparr>\<rparr>"


text \<open>A conversion of the value \<open>v\<close> throws \<open>err\<close>.\<close>

definition conv_fails :: "StdConv \<Rightarrow> string \<Rightarrow> conv_error \<Rightarrow> bool" where
  "conv_fails L v err =
     (stoi L v = Inl err \<or> stoul L v = Inl err \<or> stof L v = Inl err \<or> stod L v = Inl err)"

text \<open>The keys of the parameter file whose values are converted, by conversion.\<close>

definition stoi_keys :: "(string \<times> string) list" where
  "stoi_keys =
     [(''pwm'', ''pwm_min''), (''pwm'', ''pwm_neutral''), (''pwm'', ''pwm_normal_max''),
      (''pwm'', ''pwm_boost_max''), (''joystick'', ''deadzone''),
      (''led'', ''channel''), (''led'', ''on_value''), (''led'', ''off_value''),
      (''led2'', ''channel''), (''led2'', ''off_value''), (''led2'', ''on1_value''),
      (''led2'', ''on2_value''), (''led2'', ''max_value''),
      (''led3'', ''channel''), (''led3'', ''off_value''), (''led3'', ''on1_value''),
      (''led3'', ''on2_value''), (''led3'', ''max_value''),
      (''led4'', ''channel''), (''led4'', ''off_value''), (''led4'', ''on1_value''),
      (''led4'', ''on2_value''), (''led4'', ''max_value''),
      (''led5'', ''channel''), (''led5'', ''off_value''), (''led5'', ''on1_value''),
      (''led5'', ''on2_value''), (''led5'', ''max_value''),
      (''network'', ''recv_port''), (''network'', ''send_port''),
      (''gstreamer_camera_1'', ''port''), (''gstreamer_camera_1'', ''width''),
      (''gstreamer_camera_1'', ''height''), (''gstreamer_camera_1'', ''framerate_num''),
      (''gstreamer_camera_1'', ''framerate_den''), (''gstreamer_camera_1'', ''rtp_payload_type''),
      (''gstreamer_camera_1'', ''rtp_config_interval''),
      (''gstreamer_camera_2'', ''port''), (''gstreamer_camera_2'', ''width''),
      (''gstreamer_camera_2'', ''height''), (''gstreamer_camera_2'', ''framerate_num''),
      (''gstreamer_camera_2'', ''framerate_den''), (''gstreamer_camera_2'', ''rtp_payload_type''),
      (''gstreamer_camera_2'', ''rtp_config_interval''), (''gstreamer_camera_2'', ''x264_bitrate''),
      (''config_sync'', ''cpp_recv_port''), (''config_sync'', ''wpf_recv_port'')]"

definition stof_keys :: "(string \<times> string) list" where
  "stof_keys =
     [(''pwm'', ''pwm_frequency''),
      (''thruster_control'', ''smoothing_factor_horizontal''),
      (''thruster_control'', ''smoothing_factor_vertical''),
      (''thruster_control'', ''kp_roll''), (''thruster_control'', ''kp_yaw''),
      (''thruster_control'', ''yaw_threshold_dps''), (''thruster_control'', ''yaw_gain'')]"

definition stod_keys :: "(string \<times> string) list" where
  "stod_keys = [(''network'', ''connection_timeout_seconds'')]"

definition stoul_keys :: "(string \<times> string) list" where
  "stoul_keys = [(''application'', ''sensor_send_interval''), (''application'', ''loop_delay_us'')]"

text \<open>A parameter file whose third line does not convert, and a loop state that is
  due to reload, with \<open>pwm_min = 1000\<close> in force.\<close>

definition ini_bad :: string where
  "ini_bad = ''[pwm]'' @ [CHR 0x0A] @ ''pwm_min = 1150'' @ [CHR 0x0A]
             @ ''pwm_boost_max = x'' @ [CHR 0x0A]"

definition main_reload :: Main where
  "main_reload =
     main_connected\<lparr> g_config := AppConfig_default\<lparr>pwm_min := 1000\<rparr>,
                      g_config_updated_flag := True \<rparr>"


text \<open>The value of a key of a section in the section map; the upserts of a list of
  entries, in order; and the entries of the lines of a payload that are applied.\<close>

definition lookup_entry :: "SectionMap \<Rightarrow> string \<Rightarrow> string \<Rightarrow> string option" where
  "lookup_entry m section key =
     (case map_of m section of None \<Rightarrow> None | Some kv \<Rightarrow> map_of kv key)"

definition apply_entries :: "SectionMap \<Rightarrow> (string \<times> string \<times> string) list \<Rightarrow> SectionMap" where
  "apply_entries m es = foldl (\<lambda>m (section, key, v). set_entry m section key v) m es"

definition entries_of :: "string \<Rightarrow> (string \<times> string \<times> string) list" where
  "entries_of data = List.map_filter entry_of (getlines data)"

text \<open>A synchroniser state, a payload with two well-formed lines around a malformed
  one, and a payload without any well-formed line.\<close>

definition sync0 :: Sync where
  "sync0 =
     \<lparr> g_sync_config_data = [(''pwm'', [(''pwm_boost_max'', ''1900''), (''pwm_min'', ''1100'')])],
       config_file = Some ''old text'',
       config_file_writable = True,
       updated_flag = False \<rparr>"

definition payload_mixed :: string where
  "payload_mixed = ''[pwm]pwm_min=1150'' @ [CHR 0x0A] @ ''[pwm]pwm_boost_max'' @ [CHR 0x0A]
                   @ ''[led]on_value=1800'' @ [CHR 0x0A]"

definition payload_malformed :: string where
  "payload_malformed = ''pwm]pwm_min=1150'' @ [CHR 0x0A] @ ''[pwm]pwm_boost_max'' @ [CHR 0x0A]"






text \<open>The thruster module with all six smoothing values at \<open>v\<close>, and a sample with the
  forward stick fully pushed.\<close>

definition thruster_at :: "real \<Rightarrow> Thruster" where
  "thruster_at v = thruster0\<lparr>current_pwm_values := (\<lambda>i. v)\<rparr>"

definition sample_forward :: GamepadData where
  "sample_forward = GamepadData_zero\<lparr>rightThumbY := 32767\<rparr>"

section \<open>Properties\<close>

lemma upt_NUM_THRUSTERS: "[0..<NUM_THRUSTERS] = [0, 1, 2, 3, 4, 5]"
  unfolding NUM_THRUSTERS_def by (simp add: upt_rec)

lemma upt_4: "[0..<4] = [0, 1, 2, 3::nat]"
  by (simp add: upt_rec)

lemma writes_ok_refl: "writes_ok g d d"
  by (simp add: writes_ok_def)

lemma writes_ok_trans: "writes_ok g d1 d2 \<Longrightarrow> writes_ok g d2 d3 \<Longrightarrow> writes_ok g d1 d3"
  unfolding writes_ok_def by (metis Un_iff append.assoc set_append)

lemma writes_ok_eq: "duty_writes d' = duty_writes d \<Longrightarrow> writes_ok g d d'"
  by (simp add: writes_ok_def)

lemma set_thruster_pwm_writes:
  "duty_writes (set_thruster_pwm g ch p d) =
     duty_writes d @ [(ch, real_of_int (max (pwm_min g) (min p (pwm_boost_max g)))
                             / (1000000 / pwm_frequency g))]"
  by (simp add: set_thruster_pwm_def set_pwm_channel_duty_cycle_def Let_def)

lemma set_thruster_pwm_ok:
  assumes "pwm_min g \<le> pwm_boost_max g"
  shows "writes_ok g d (set_thruster_pwm g ch p d)"
proof -
  let ?c = "max (pwm_min g) (min p (pwm_boost_max g))"
  have "pwm_min g \<le> ?c" "?c \<le> pwm_boost_max g" using assms by auto
  then have "emitted_ok g (ch, real_of_int ?c / (1000000 / pwm_frequency g))"
    unfolding emitted_ok_def by (intro exI[of _ ?c]) simp
  then show ?thesis
    unfolding writes_ok_def set_thruster_pwm_writes by simp
qed

lemma set_thruster_pwm_ok_after:
  "pwm_min g \<le> pwm_boost_max g \<Longrightarrow> writes_ok g d0 d \<Longrightarrow> writes_ok g d0 (set_thruster_pwm g ch p d)"
  by (blast intro: writes_ok_trans set_thruster_pwm_ok)

lemma set_channel_ok:
  "pwm_min g \<le> pwm_boost_max g \<Longrightarrow> writes_ok g d0 (driver t)
     \<Longrightarrow> writes_ok g d0 (driver (set_channel g v t i))"
  by (simp add: set_channel_def set_thruster_pwm_ok_after)

lemma foldl_set_channel_ok:
  "pwm_min g \<le> pwm_boost_max g \<Longrightarrow> writes_ok g d0 (driver t)
     \<Longrightarrow> writes_ok g d0 (driver (foldl (set_channel g v) t is))"
  by (induction "is" arbitrary: t) (simp_all add: set_channel_ok)

lemma thruster_set_all_pwm_ok:
  "pwm_min g \<le> pwm_boost_max g \<Longrightarrow> writes_ok g (driver t) (driver (thruster_set_all_pwm g v t))"
  by (simp add: thruster_set_all_pwm_def foldl_set_channel_ok writes_ok_refl)

lemma apply_led_pwm_ok:
  "pwm_min g \<le> pwm_boost_max g \<Longrightarrow> writes_ok g d0 d \<Longrightarrow> writes_ok g d0 (apply_led_pwm g t d)"
  by (simp add: apply_led_pwm_def Let_def set_thruster_pwm_ok_after)

lemma set_pwm_enable_ok: "writes_ok g d0 d \<Longrightarrow> writes_ok g d0 (set_pwm_enable b d)"
  by (simp add: writes_ok_def set_pwm_enable_def)

lemma set_pwm_freq_hz_ok: "writes_ok g d0 d \<Longrightarrow> writes_ok g d0 (set_pwm_freq_hz f d)"
  by (simp add: writes_ok_def set_pwm_freq_hz_def)

lemma thruster_disable_ok:
  assumes "pwm_min g \<le> pwm_boost_max g"
  shows "writes_ok g (driver t) (driver (thruster_disable g t))"
proof -
  have "writes_ok g (driver t) (driver (foldl (set_channel g (pwm_min g)) t [0..<NUM_THRUSTERS]))"
    using assms by (simp add: foldl_set_channel_ok writes_ok_refl)
  then show ?thesis
    using assms
    by (simp add: thruster_disable_def Let_def set_pwm_enable_ok set_thruster_pwm_ok_after)
qed

lemma thruster_init_ok:
  assumes "pwm_min g \<le> pwm_boost_max g"
  shows "writes_ok g (driver t) (driver (thruster_init g t))"
proof -
  let ?t1 = "t\<lparr>driver := set_pwm_freq_hz (pwm_frequency g) (set_pwm_enable True (driver t))\<rparr>"
  have 1: "writes_ok g (driver t) (driver ?t1)"
    by (simp add: set_pwm_enable_ok set_pwm_freq_hz_ok writes_ok_refl)
  have 2: "writes_ok g (driver t) (driver (foldl (set_channel g (pwm_min g)) ?t1 [0..<NUM_THRUSTERS]))"
    using assms 1 by (rule foldl_set_channel_ok)
  show ?thesis
    using assms 2
    by (simp add: thruster_init_def Let_def apply_led_pwm_ok split: option.split)
qed

lemma send_thrusters_ok:
  assumes "pwm_min g \<le> pwm_boost_max g" and "writes_ok g d0 d"
  shows "writes_ok g d0 (send_thrusters g cur d)"
proof -
  have "writes_ok g d0 (foldl (\<lambda>d i. set_thruster_pwm g (int i) (static_cast_int (cur i)) d) d js)" for js
    using assms(2) by (induction js arbitrary: d) (simp_all add: assms(1) set_thruster_pwm_ok_after)
  then show ?thesis
    using assms(1) by (simp add: send_thrusters_def Let_def set_thruster_pwm_ok_after)
qed

lemma driver_update_led_states: "driver (update_led_states B gp t) = driver t"
  by (simp add: update_led_states_def Let_def)

lemma thruster_update_ok:
  assumes "pwm_min g \<le> pwm_boost_max g"
  shows "writes_ok g (driver t) (driver (thruster_update g B gp gy t))"
  using assms
  by (simp add: thruster_update_def Let_def apply_led_pwm_ok driver_update_led_states
      send_thrusters_ok writes_ok_refl)

text \<open>
  Claim C3, as amended.  Provided \<open>pwm_min \<le> pwm_boost_max\<close> in the parameter record
  in force, every call of \<^verbatim>\<open>set_thruster_pwm\<close> programs exactly one duty cycle, that of
  the pulse width clamped into \<open>[pwm_min, pwm_boost_max]\<close> divided by the period
  \<open>1000000 / pwm_frequency\<close>; and every duty cycle that \<^verbatim>\<open>thruster_init\<close>,
  \<^verbatim>\<open>thruster_update\<close>, \<^verbatim>\<open>thruster_set_all_pwm\<close> and \<^verbatim>\<open>thruster_disable\<close> send to the
  driver, for thruster and accessory channels alike, is the duty cycle of a pulse width
  inside that range.
\<close>

theorem pwm_outputs_clamped:
  assumes "pwm_min g \<le> pwm_boost_max g"
  shows "duty_writes (set_thruster_pwm g ch p d) =
           duty_writes d @ [(ch, real_of_int (max (pwm_min g) (min p (pwm_boost_max g)))
                                   / (1000000 / pwm_frequency g))]
         \<and> pwm_min g \<le> max (pwm_min g) (min p (pwm_boost_max g))
         \<and> max (pwm_min g) (min p (pwm_boost_max g)) \<le> pwm_boost_max g
         \<and> writes_ok g (driver t) (driver (thruster_init g t))
         \<and> writes_ok g (driver t) (driver (thruster_update g B gp gy t))
         \<and> writes_ok g (driver t) (driver (thruster_set_all_pwm g v t))
         \<and> writes_ok g (driver t) (driver (thruster_disable g t))"
  using assms
  by (simp add: set_thruster_pwm_writes thruster_init_ok thruster_update_ok
      thruster_set_all_pwm_ok thruster_disable_ok)

text \<open>With the default parameters a request of 2500 us on channel 3 is programmed as
  1900 us, i.e. the duty cycle \<open>1900 / 20000\<close>.\<close>

theorem pwm_outputs_clamped_witness:
  "pwm_min AppConfig_default \<le> pwm_boost_max AppConfig_default
   \<and> duty_writes (set_thruster_pwm AppConfig_default 3 2500 driver0) = [(3, 19 / 200)]"
  using pwm_outputs_clamped [of AppConfig_default 3 2500 driver0]
  by (simp add: AppConfig_default_def driver0_def)

text \<open>
  Claim C3 as stated fails for a parameter record with \<open>pwm_min > pwm_boost_max\<close>, which
  the parser accepts: with \<open>pwm_min = 2000\<close> and \<open>pwm_boost_max = 1900\<close> a request of
  1500 us is programmed as 2000 us, above \<open>pwm_boost_max\<close>.
\<close>

theorem pwm_outputs_clamped_counterexample:
  "duty_writes (set_thruster_pwm (AppConfig_default\<lparr>pwm_min := 2000\<rparr>) 0 1500 driver0)
     = [(0, 2000 / (1000000 / 50))]
   \<and> pwm_frequency (AppConfig_default\<lparr>pwm_min := 2000\<rparr>) = 50
   \<and> pwm_boost_max (AppConfig_default\<lparr>pwm_min := 2000\<rparr>) = 1900
   \<and> \<not> writes_ok (AppConfig_default\<lparr>pwm_min := 2000\<rparr>) driver0
         (set_thruster_pwm (AppConfig_default\<lparr>pwm_min := 2000\<rparr>) 0 1500 driver0)"
  by (simp add: set_thruster_pwm_def set_pwm_channel_duty_cycle_def AppConfig_default_def
      driver0_def writes_ok_def emitted_ok_def)



lemma thruster_set_all_pwm_leds:
  "led_state_file (thruster_set_all_pwm g v t) = led_state_file t"
  "current_led_state (thruster_set_all_pwm g v t) = current_led_state t"
  "current_led2_state (thruster_set_all_pwm g v t) = current_led2_state t"
  "current_led3_state (thruster_set_all_pwm g v t) = current_led3_state t"
  "current_led4_state (thruster_set_all_pwm g v t) = current_led4_state t"
  "current_led5_state (thruster_set_all_pwm g v t) = current_led5_state t"
  unfolding thruster_set_all_pwm_def upt_NUM_THRUSTERS
  by (simp_all add: set_channel_def)

lemma reload_phase_fields:
  "net_ctx (reload_phase L e s) = net_ctx s"
  "running (reload_phase L e s) = running s"
  "currently_in_failsafe (reload_phase L e s) = currently_in_failsafe s"
  "thr (reload_phase L e s) = thr s"
  "prev_accel_z_sign (reload_phase L e s) = prev_accel_z_sign s"
  "latest_gamepad_data (reload_phase L e s) = latest_gamepad_data s"
  "g_config_updated_flag (reload_phase L e s) = False"
  by (simp_all add: reload_phase_def)

lemma reload_phase_no_flag: "\<not> g_config_updated_flag s \<Longrightarrow> reload_phase L e s = s"
  by (simp add: reload_phase_def)

lemma network_phase_timeout:
  assumes "client_addr_known (net_ctx s)" and "recv_len e \<le> 0"
      and "time_since_last_packet e (net_ctx s) > tmo" and "\<not> currently_in_failsafe s"
  shows "network_phase e tmo pmin s =
           s\<lparr> thr := thruster_set_all_pwm (g_config s) pmin (thr s),
               latest_gamepad_data := GamepadData_zero,
               currently_in_failsafe := True,
               running := False \<rparr>"
  using assms by (simp add: network_phase_def network_receive_def Let_def)

lemma control_phase_idle:
  "currently_in_failsafe s \<or> \<not> running s \<Longrightarrow> control_phase B e n s = s\<lparr>loop_counter := 0\<rparr>"
  by (auto simp add: control_phase_def)

lemma main_tick_timeout:
  assumes "client_addr_known (net_ctx s)" and "recv_len e \<le> 0"
      and "time_since_last_packet e (net_ctx s) > connection_timeout_seconds (g_config s)"
      and "\<not> currently_in_failsafe s"
  shows "main_tick L B e s =
           (reload_phase L e s)
             \<lparr> thr := thruster_set_all_pwm (g_config (reload_phase L e s)) (pwm_min (g_config s)) (thr s),
               latest_gamepad_data := GamepadData_zero,
               currently_in_failsafe := True,
               running := False,
               loop_counter := 0 \<rparr>"
  using assms
  by (simp add: main_tick_def Let_def network_phase_timeout reload_phase_fields control_phase_idle)




lemma telemetry_config:
  "g_config (telemetry e n s) = g_config s"
  "g_config_updated_flag (telemetry e n s) = g_config_updated_flag s"
  by (simp_all add: telemetry_def split: option.split)

lemma accel_check_config:
  "g_config (accel_check e s) = g_config s"
  "g_config_updated_flag (accel_check e s) = g_config_updated_flag s"
  by (simp_all add: accel_check_def Let_def)

lemma control_phase_config:
  "g_config (control_phase B e n s) = g_config s"
  "g_config_updated_flag (control_phase B e n s) = g_config_updated_flag s"
  by (simp_all add: control_phase_def Let_def telemetry_config accel_check_config)

lemma network_phase_config:
  "g_config (network_phase e tmo pmin s) = g_config s"
  "g_config_updated_flag (network_phase e tmo pmin s) = g_config_updated_flag s"
  by (simp_all add: network_phase_def Let_def)

lemma main_tick_config:
  "g_config (main_tick L B e s) = g_config (reload_phase L e s)"
  "g_config_updated_flag (main_tick L B e s) = g_config_updated_flag (reload_phase L e s)"
  by (simp_all add: main_tick_def Let_def control_phase_config network_phase_config)










lemma network_phase_prev_sign:
  "prev_accel_z_sign (network_phase e tmo pmin s) = prev_accel_z_sign s"
  by (simp add: network_phase_def Let_def)

lemma network_phase_normal:
  assumes "running s"
      and "recv_len e > 0 \<or>
           (\<not> currently_in_failsafe s \<and>
            \<not> (client_addr_known (net_ctx s) \<and> time_since_last_packet e (net_ctx s) > tmo))"
  shows "\<not> currently_in_failsafe (network_phase e tmo pmin s) \<and> running (network_phase e tmo pmin s)"
  using assms by (auto simp add: network_phase_def network_receive_def Let_def)

lemma network_phase_not_normal:
  assumes "\<not> (running s \<and> (recv_len e > 0 \<or>
           (\<not> currently_in_failsafe s \<and>
            \<not> (client_addr_known (net_ctx s) \<and> time_since_last_packet e (net_ctx s) > tmo))))"
  shows "currently_in_failsafe (network_phase e tmo pmin s) \<or> \<not> running (network_phase e tmo pmin s)"
  using assms by (auto simp add: network_phase_def network_receive_def Let_def)

lemma telemetry_fields:
  "running (telemetry e n s) = running s"
  "prev_accel_z_sign (telemetry e n s) = prev_accel_z_sign s"
  by (simp_all add: telemetry_def split: option.split)

lemma accel_check_running:
  "running (accel_check e s) =
     (running s \<and> \<not> (prev_accel_z_sign s \<noteq> 0
                      \<and> copysign1 (axis_z (accel_reading e)) \<noteq> prev_accel_z_sign s
                      \<and> axis_z (accel_reading e) \<noteq> 0))"
  by (simp add: accel_check_def Let_def)

lemma accel_check_prev:
  "prev_accel_z_sign (accel_check e s) = copysign1 (axis_z (accel_reading e))"
  by (simp add: accel_check_def Let_def)

lemma control_phase_normal:
  assumes "\<not> currently_in_failsafe s" and "running s"
  shows "running (control_phase B e n s) =
           (\<not> (prev_accel_z_sign s \<noteq> 0
               \<and> copysign1 (axis_z (accel_reading e)) \<noteq> prev_accel_z_sign s
               \<and> axis_z (accel_reading e) \<noteq> 0))"
    and "prev_accel_z_sign (control_phase B e n s) = copysign1 (axis_z (accel_reading e))"
  using assms
  by (simp_all add: control_phase_def Let_def telemetry_fields accel_check_running accel_check_prev)

text \<open>
  Claim C2, as amended.  In an iteration in normal operation the loop stops
  (\<^verbatim>\<open>running\<close> becomes false in that iteration) exactly when a sign is on record from an
  earlier iteration, the sign of the vertical acceleration read now differs from it, and
  the reading is not zero; the sign read now is then put on record.  In an iteration
  that is not in normal operation nothing is compared and the record is left alone.
\<close>

theorem rollover_check:
  "(normal_operation e s \<longrightarrow>
      (running (main_tick L B e s) \<longleftrightarrow>
         \<not> (prev_accel_z_sign s \<noteq> 0
            \<and> copysign1 (axis_z (accel_reading e)) \<noteq> prev_accel_z_sign s
            \<and> axis_z (accel_reading e) \<noteq> 0))
      \<and> prev_accel_z_sign (main_tick L B e s) = copysign1 (axis_z (accel_reading e)))
   \<and> (\<not> normal_operation e s \<longrightarrow> prev_accel_z_sign (main_tick L B e s) = prev_accel_z_sign s)"
proof (intro conjI impI)
  let ?s2 = "network_phase e (connection_timeout_seconds (g_config s)) (pwm_min (g_config s))
               (reload_phase L e s)"
  have t: "main_tick L B e s = control_phase B e (sensor_send_interval (g_config s)) ?s2"
    by (simp add: main_tick_def Let_def)
  have p: "prev_accel_z_sign ?s2 = prev_accel_z_sign s"
    by (simp add: network_phase_prev_sign reload_phase_fields)
  {
    assume "normal_operation e s"
    then have n: "\<not> currently_in_failsafe ?s2 \<and> running ?s2"
      unfolding normal_operation_def
      by (intro network_phase_normal) (simp_all add: reload_phase_fields)
    show "running (main_tick L B e s) \<longleftrightarrow>
            \<not> (prev_accel_z_sign s \<noteq> 0
               \<and> copysign1 (axis_z (accel_reading e)) \<noteq> prev_accel_z_sign s
               \<and> axis_z (accel_reading e) \<noteq> 0)"
      using n by (simp add: t control_phase_normal p)
    show "prev_accel_z_sign (main_tick L B e s) = copysign1 (axis_z (accel_reading e))"
      using n by (simp add: t control_phase_normal)
  }
  {
    assume "\<not> normal_operation e s"
    then have "currently_in_failsafe ?s2 \<or> \<not> running ?s2"
      unfolding normal_operation_def
      by (intro network_phase_not_normal) (simp add: reload_phase_fields)
    then show "prev_accel_z_sign (main_tick L B e s) = prev_accel_z_sign s"
      by (simp add: t control_phase_idle p)
  }
qed

theorem rollover_check_witness:
  "normal_operation (tick_level\<lparr>accel_reading := \<lparr> axis_x = 0, axis_y = 0, axis_z = 981 / 100 \<rparr>\<rparr>)
     (main_connected\<lparr>prev_accel_z_sign := - 1\<rparr>)
   \<and> \<not> running (main_tick demo_conv xinput_buttons
                  (tick_level\<lparr>accel_reading := \<lparr> axis_x = 0, axis_y = 0, axis_z = 981 / 100 \<rparr>\<rparr>)
                  (main_connected\<lparr>prev_accel_z_sign := - 1\<rparr>))
   \<and> \<not> normal_operation tick_silent (main_start AppConfig_default thruster0)
   \<and> prev_accel_z_sign (main_tick demo_conv xinput_buttons tick_silent
                           (main_start AppConfig_default thruster0)) = 0"
  using rollover_check [of "tick_level\<lparr>accel_reading := \<lparr> axis_x = 0, axis_y = 0, axis_z = 981 / 100 \<rparr>\<rparr>"
      "main_connected\<lparr>prev_accel_z_sign := - 1\<rparr>" demo_conv xinput_buttons]
    rollover_check [of tick_silent "main_start AppConfig_default thruster0" demo_conv xinput_buttons]
  by (simp add: normal_operation_def tick_level_def tick_silent_def main_connected_def
      main_start_def copysign1_def)

text \<open>
  Claim C2 as stated fails for a reading of zero: with the sign \<open>-1\<close> on record, a
  reading of \<open>0\<close> has the sign \<open>+1\<close>, yet the loop keeps running.
\<close>

theorem rollover_check_counterexample:
  "running (main_connected\<lparr>prev_accel_z_sign := - 1\<rparr>)
   \<and> \<not> currently_in_failsafe (main_connected\<lparr>prev_accel_z_sign := - 1\<rparr>)
   \<and> recv_len tick_level > 0
   \<and> copysign1 (axis_z (accel_reading tick_level)) = 1
   \<and> prev_accel_z_sign (main_connected\<lparr>prev_accel_z_sign := - 1\<rparr>) = - 1
   \<and> running (main_tick demo_conv xinput_buttons tick_level
                (main_connected\<lparr>prev_accel_z_sign := - 1\<rparr>))"
proof -
  have "normal_operation tick_level (main_connected\<lparr>prev_accel_z_sign := - 1\<rparr>)"
    by (simp add: normal_operation_def tick_level_def main_connected_def main_start_def)
  then have "running (control_phase xinput_buttons tick_level
                 (sensor_send_interval (g_config (main_connected\<lparr>prev_accel_z_sign := - 1\<rparr>)))
                 (network_phase tick_level
                    (connection_timeout_seconds (g_config (main_connected\<lparr>prev_accel_z_sign := - 1\<rparr>)))
                    (pwm_min (g_config (main_connected\<lparr>prev_accel_z_sign := - 1\<rparr>)))
                    (reload_phase demo_conv tick_level (main_connected\<lparr>prev_accel_z_sign := - 1\<rparr>))))"
    unfolding normal_operation_def
    by (subst control_phase_normal(1))
      (simp_all add: network_phase_normal reload_phase_fields network_phase_prev_sign
        tick_level_def)
  then show ?thesis
    by (simp add: main_tick_def Let_def)
      (simp add: tick_level_def main_connected_def main_start_def copysign1_def)
qed

lemma foldl_set_channel_leds:
  "led_state_file (foldl (set_channel g v) t js) = led_state_file t"
  "current_led_state (foldl (set_channel g v) t js) = current_led_state t"
  "current_led2_state (foldl (set_channel g v) t js) = current_led2_state t"
  "current_led3_state (foldl (set_channel g v) t js) = current_led3_state t"
  "current_led4_state (foldl (set_channel g v) t js) = current_led4_state t"
  "current_led5_state (foldl (set_channel g v) t js) = current_led5_state t"
  by (induction js arbitrary: t) (simp_all add: set_channel_def)

lemma thruster_disable_leds:
  "led_state_file (thruster_disable g t) = led_state_file t"
  "current_led_state (thruster_disable g t) = current_led_state t"
  "current_led2_state (thruster_disable g t) = current_led2_state t"
  "current_led3_state (thruster_disable g t) = current_led3_state t"
  "current_led4_state (thruster_disable g t) = current_led4_state t"
  "current_led5_state (thruster_disable g t) = current_led5_state t"
  by (simp_all add: thruster_disable_def Let_def foldl_set_channel_leds)

lemma thruster_disable_driver:
  "\<not> pwm_enable (driver (thruster_disable g t))"
  by (simp add: thruster_disable_def Let_def set_pwm_enable_def)

lemma thruster_disable_values:
  "i < 6 \<Longrightarrow> current_pwm_values (thruster_disable g t) i = real_of_int (pwm_min g)"
  unfolding thruster_disable_def Let_def upt_NUM_THRUSTERS
  by (simp add: set_channel_def)

lemma cleanup_thr:
  "thr (cleanup s) =
     thruster_disable (g_config s) (thruster_set_all_pwm (g_config s) (pwm_min (g_config s)) (thr s))"
  by (simp add: cleanup_def Let_def)

lemma cleanup_effects:
  "\<not> sync_thread_running (cleanup s) \<and> \<not> network_open (cleanup s)
   \<and> \<not> gst_pipelines_running (cleanup s)
   \<and> \<not> pwm_enable (driver (thr (cleanup s)))
   \<and> (\<forall>i<6. current_pwm_values (thr (cleanup s)) i = real_of_int (pwm_min (g_config s)))
   \<and> led_state_file (thr (cleanup s)) = led_state_file (thr s)"
  by (simp add: cleanup_thr thruster_disable_driver thruster_disable_values
      thruster_disable_leds thruster_set_all_pwm_leds)
    (simp add: cleanup_def Let_def)

text \<open>
  Claim C4 does not hold of the clean-up.  With accessory 2 at ON1 and no snapshot file,
  the connection timeout ends the loop; after the clean-up there is still no snapshot
  file, whereas \<^verbatim>\<open>thruster_save_led_state_to_file\<close>, which the clean-up never calls, would
  have written the five states.  The other steps of the claim are done, see
  \<open>cleanup_effects\<close>.
\<close>

theorem cleanup_leaves_snapshot_unwritten:
  "\<not> running (main_tick demo_conv xinput_buttons tick_silent main_led2_on)
   \<and> current_led2_state (thr (main_tick demo_conv xinput_buttons tick_silent main_led2_on)) = LedON1
   \<and> led_state_file (thr (main_tick demo_conv xinput_buttons tick_silent main_led2_on)) = None
   \<and> led_state_file
        (thr (cleanup (main_tick demo_conv xinput_buttons tick_silent main_led2_on))) = None
   \<and> led_state_file
        (thruster_save_led_state_to_file
           (thr (main_tick demo_conv xinput_buttons tick_silent main_led2_on)))
       = Some [LedOFF, LedON1, LedOFF, LedOFF, LedOFF]"
proof -
  have t: "main_tick demo_conv xinput_buttons tick_silent main_led2_on =
           (reload_phase demo_conv tick_silent main_led2_on)
             \<lparr> thr := thruster_set_all_pwm (g_config (reload_phase demo_conv tick_silent main_led2_on))
                        (pwm_min (g_config main_led2_on)) (thr main_led2_on),
               latest_gamepad_data := GamepadData_zero,
               currently_in_failsafe := True,
               running := False,
               loop_counter := 0 \<rparr>"
    by (rule main_tick_timeout)
      (simp_all add: main_led2_on_def main_connected_def main_start_def tick_silent_def
        time_since_last_packet_def AppConfig_default_def)
  have i: "thr main_led2_on =
             (thruster_set_all_pwm AppConfig_default (pwm_min AppConfig_default)
                (thruster_init AppConfig_default thruster0))\<lparr>current_led2_state := LedON1\<rparr>"
    by (simp add: main_led2_on_def main_connected_def main_start_def)
  have f: "led_state_file (thruster_init AppConfig_default thruster0) = None"
          "current_led_state (thruster_init AppConfig_default thruster0) = LedOFF"
          "current_led3_state (thruster_init AppConfig_default thruster0) = LedOFF"
          "current_led4_state (thruster_init AppConfig_default thruster0) = LedOFF"
          "current_led5_state (thruster_init AppConfig_default thruster0) = LedOFF"
    by (simp_all add: thruster_init_def Let_def thruster0_def foldl_set_channel_leds)
  show ?thesis
    unfolding t
    by (simp add: cleanup_thr thruster_disable_leds thruster_set_all_pwm_leds
        thruster_save_led_state_to_file_def i f)
qed

lemma stoX_to_Inl:
  "stoi_to L v f = Inl err \<Longrightarrow> conv_fails L v err"
  "stoul_to L v h = Inl err \<Longrightarrow> conv_fails L v err"
  "stof_to L v k = Inl err \<Longrightarrow> conv_fails L v err"
  "stod_to L v k = Inl err \<Longrightarrow> conv_fails L v err"
  by (auto simp: stoi_to_def stoul_to_def stof_to_def stod_to_def conv_fails_def split: sum.splits)

lemma assign_pwm_Inl: "assign_pwm L key v c = Inl err \<Longrightarrow> conv_fails L v err"
  by (auto simp: assign_pwm_def dest: stoX_to_Inl split: if_splits)

lemma assign_joystick_Inl: "assign_joystick L key v c = Inl err \<Longrightarrow> conv_fails L v err"
  by (auto simp: assign_joystick_def dest: stoX_to_Inl split: if_splits)

lemma assign_led_Inl: "assign_led L key v c = Inl err \<Longrightarrow> conv_fails L v err"
  by (auto simp: assign_led_def dest: stoX_to_Inl split: if_splits)

lemma assign_led2_Inl: "assign_led2 L key v c = Inl err \<Longrightarrow> conv_fails L v err"
  by (auto simp: assign_led2_def dest: stoX_to_Inl split: if_splits)

lemma assign_led3_Inl: "assign_led3 L key v c = Inl err \<Longrightarrow> conv_fails L v err"
  by (auto simp: assign_led3_def dest: stoX_to_Inl split: if_splits)

lemma assign_led4_Inl: "assign_led4 L key v c = Inl err \<Longrightarrow> conv_fails L v err"
  by (auto simp: assign_led4_def dest: stoX_to_Inl split: if_splits)

lemma assign_led5_Inl: "assign_led5 L key v c = Inl err \<Longrightarrow> conv_fails L v err"
  by (auto simp: assign_led5_def dest: stoX_to_Inl split: if_splits)

lemma assign_thruster_control_Inl:
  "assign_thruster_control L key v c = Inl err \<Longrightarrow> conv_fails L v err"
  by (auto simp: assign_thruster_control_def dest: stoX_to_Inl split: if_splits)

lemma assign_network_Inl: "assign_network L key v c = Inl err \<Longrightarrow> conv_fails L v err"
  by (auto simp: assign_network_def dest: stoX_to_Inl split: if_splits)

lemma assign_application_Inl: "assign_application L key v c = Inl err \<Longrightarrow> conv_fails L v err"
  by (auto simp: assign_application_def dest: stoX_to_Inl split: if_splits)

lemma assign_gstreamer_camera_1_Inl:
  "assign_gstreamer_camera_1 L key v c = Inl err \<Longrightarrow> conv_fails L v err"
  by (auto simp: assign_gstreamer_camera_1_def dest: stoX_to_Inl split: if_splits)

lemma assign_gstreamer_camera_2_Inl:
  "assign_gstreamer_camera_2 L key v c = Inl err \<Longrightarrow> conv_fails L v err"
  by (auto simp: assign_gstreamer_camera_2_def dest: stoX_to_Inl split: if_splits)

lemma assign_config_sync_Inl: "assign_config_sync L key v c = Inl err \<Longrightarrow> conv_fails L v err"
  by (auto simp: assign_config_sync_def dest: stoX_to_Inl split: if_splits)

lemma assign_key_Inl: "assign_key L sec key v c = Inl err \<Longrightarrow> conv_fails L v err"
  unfolding assign_key_def
  by (auto split: if_splits
      dest: assign_pwm_Inl assign_joystick_Inl assign_led_Inl assign_led2_Inl assign_led3_Inl
        assign_led4_Inl assign_led5_Inl assign_thruster_control_Inl assign_network_Inl
        assign_application_Inl assign_gstreamer_camera_1_Inl assign_gstreamer_camera_2_Inl
        assign_config_sync_Inl)

lemma parse_line_Inl:
  assumes "parse_line L st raw = Inl err"
  shows "\<exists>eq_pos. str_find CHR ''='' 0 (trim raw) = Some eq_pos
           \<and> conv_fails L (trim (drop (eq_pos + 1) (trim raw))) err"
  using assms
  by (auto simp: parse_line_def Let_def split: if_splits option.splits sum.splits
      dest: assign_key_Inl)

lemma parse_lines_append:
  "parse_lines L st (ls1 @ ls2) =
     (case parse_lines L st ls1 of Inl e \<Rightarrow> Inl e | Inr st1 \<Rightarrow> parse_lines L st1 ls2)"
  by (induction ls1 arbitrary: st) (simp_all split: sum.splits)

lemma parse_lines_first_failure:
  assumes "parse_lines L st ls1 = Inr st1" and "parse_line L st1 l = Inl err"
  shows "parse_lines L st (ls1 @ l # ls2) = Inl err"
  using assms by (simp add: parse_lines_append)

lemma parse_lines_Inl:
  "parse_lines L st ls = Inl err \<Longrightarrow>
     \<exists>ls1 l ls2 st1. ls = ls1 @ l # ls2 \<and> parse_lines L st ls1 = Inr st1
                      \<and> parse_line L st1 l = Inl err"
proof (induction ls arbitrary: st)
  case Nil
  then show ?case by simp
next
  case (Cons a ls)
  show ?case
  proof (cases "parse_line L st a")
    case (Inl e)
    with Cons.prems have "e = err" by simp
    with Inl have "a # ls = [] @ a # ls \<and> parse_lines L st [] = Inr st \<and> parse_line L st a = Inl err"
      by simp
    then show ?thesis by blast
  next
    case (Inr st')
    with Cons.prems have "parse_lines L st' ls = Inl err" by simp
    from Cons.IH [OF this] obtain ls1 l ls2 st1 where
      h: "ls = ls1 @ l # ls2" "parse_lines L st' ls1 = Inr st1" "parse_line L st1 l = Inl err"
      by blast
    then have "a # ls = (a # ls1) @ l # ls2 \<and> parse_lines L st (a # ls1) = Inr st1
               \<and> parse_line L st1 l = Inl err"
      using Inr by simp
    then show ?thesis by blast
  qed
qed

lemma loadConfig_False: "fst (loadConfig L file g) = False \<Longrightarrow> snd (loadConfig L file g) = g"
  by (auto simp: loadConfig_def split: option.splits sum.splits)

lemma loadConfig_True:
  "fst (loadConfig L file g) = True \<Longrightarrow>
     \<exists>content st. file = Some content
        \<and> parse_lines L (AppConfig_default, []) (getlines content) = Inr st
        \<and> snd (loadConfig L file g) = fst st"
  by (auto simp: loadConfig_def split: option.splits sum.splits)

lemma reload_phase_failed:
  "g_config_updated_flag s \<Longrightarrow> fst (loadConfig L (config_ini e) (g_config s)) = False
     \<Longrightarrow> reload_phase L e s = s\<lparr>g_config_updated_flag := False\<rparr>"
  by (simp add: reload_phase_def loadConfig_False)

lemma main_tick_flag_irrelevant:
  "reload_phase L e s = s\<lparr>g_config_updated_flag := False\<rparr>
     \<Longrightarrow> main_tick L B e s = main_tick L B e (s\<lparr>g_config_updated_flag := False\<rparr>)"
  by (simp add: main_tick_def Let_def reload_phase_def)

lemma stoi_keys_fail:
  "(sec, key) \<in> set stoi_keys \<Longrightarrow> stoi L v = Inl err \<Longrightarrow> assign_key L sec key v c = Inl err"
  unfolding stoi_keys_def
  apply (simp only: list.set insert_iff empty_iff prod.inject)
  apply (elim disjE conjE FalseE; hypsubst;
      simp add: assign_key_def assign_pwm_def assign_joystick_def assign_led_def
      assign_led2_def assign_led3_def assign_led4_def assign_led5_def assign_network_def
      assign_gstreamer_camera_1_def assign_gstreamer_camera_2_def assign_config_sync_def
      stoi_to_def)
  done

lemma stof_keys_fail:
  "(sec, key) \<in> set stof_keys \<Longrightarrow> stof L v = Inl err \<Longrightarrow> assign_key L sec key v c = Inl err"
  unfolding stof_keys_def
  apply (simp only: list.set insert_iff empty_iff prod.inject)
  apply (elim disjE conjE FalseE; hypsubst;
      simp add: assign_key_def assign_pwm_def assign_thruster_control_def stof_to_def)
  done

lemma stod_keys_fail:
  "(sec, key) \<in> set stod_keys \<Longrightarrow> stod L v = Inl err \<Longrightarrow> assign_key L sec key v c = Inl err"
  unfolding stod_keys_def
  apply (simp only: list.set insert_iff empty_iff prod.inject)
  apply (elim disjE conjE FalseE; hypsubst;
      simp add: assign_key_def assign_network_def stod_to_def)
  done

lemma stoul_keys_fail:
  "(sec, key) \<in> set stoul_keys \<Longrightarrow> stoul L v = Inl err \<Longrightarrow> assign_key L sec key v c = Inl err"
  unfolding stoul_keys_def
  apply (simp only: list.set insert_iff empty_iff prod.inject)
  apply (elim disjE conjE FalseE; hypsubst;
      simp add: assign_key_def assign_application_def stoul_to_def)
  done

text \<open>
  Claim C5.  \<^verbatim>\<open>loadConfig\<close> returns true exactly when the file opens and every line
  parses, and then the global record is the temporary record built from the defaults;
  otherwise the global record is what it was.  In particular the first line whose
  conversion throws makes it return false with the record untouched; a line fails only
  through a conversion of its value, and every key with a numeric conversion fails when
  its conversion throws.  When a reload fails, the iteration clears the flag and goes on
  exactly as if no reload had been due, with the previous parameters.
\<close>

theorem loadConfig_all_or_nothing:
  "(fst (loadConfig L ini g) \<longleftrightarrow>
      (\<exists>content st. ini = Some content
          \<and> parse_lines L (AppConfig_default, []) (getlines content) = Inr st))
   \<and> snd (loadConfig L ini g) =
       (if fst (loadConfig L ini g)
        then (case ini of
                Some content \<Rightarrow>
                  (case parse_lines L (AppConfig_default, []) (getlines content) of
                     Inr st \<Rightarrow> fst st
                   | Inl err \<Rightarrow> g)
              | None \<Rightarrow> g)
        else g)
   \<and> (getlines content = ls1 @ l # ls2
        \<and> parse_lines L (AppConfig_default, []) ls1 = Inr st1
        \<and> parse_line L st1 l = Inl err
      \<longrightarrow> loadConfig L (Some content) g = (False, g))
   \<and> (parse_line L st raw = Inl err
      \<longrightarrow> (\<exists>eq_pos. str_find CHR ''='' 0 (trim raw) = Some eq_pos
            \<and> conv_fails L (trim (drop (eq_pos + 1) (trim raw))) err))
   \<and> (((sec, key) \<in> set stoi_keys \<and> stoi L v = Inl err)
        \<or> ((sec, key) \<in> set stoul_keys \<and> stoul L v = Inl err)
        \<or> ((sec, key) \<in> set stof_keys \<and> stof L v = Inl err)
        \<or> ((sec, key) \<in> set stod_keys \<and> stod L v = Inl err)
      \<longrightarrow> assign_key L sec key v c = Inl err)
   \<and> (g_config_updated_flag s \<and> \<not> fst (loadConfig L (config_ini e) (g_config s))
      \<longrightarrow> g_config (main_tick L B e s) = g_config s
        \<and> \<not> g_config_updated_flag (main_tick L B e s)
        \<and> main_tick L B e s = main_tick L B e (s\<lparr>g_config_updated_flag := False\<rparr>))"
proof (intro conjI impI)
  show "fst (loadConfig L ini g) \<longleftrightarrow>
      (\<exists>content st. ini = Some content
          \<and> parse_lines L (AppConfig_default, []) (getlines content) = Inr st)"
    by (auto simp: loadConfig_def split: option.splits sum.splits)
  show "snd (loadConfig L ini g) =
       (if fst (loadConfig L ini g)
        then (case ini of
                Some content \<Rightarrow>
                  (case parse_lines L (AppConfig_default, []) (getlines content) of
                     Inr st \<Rightarrow> fst st
                   | Inl err \<Rightarrow> g)
              | None \<Rightarrow> g)
        else g)"
    by (simp add: loadConfig_def split: option.splits sum.splits)
next
  assume "getlines content = ls1 @ l # ls2
        \<and> parse_lines L (AppConfig_default, []) ls1 = Inr st1
        \<and> parse_line L st1 l = Inl err"
  then have "parse_lines L (AppConfig_default, []) (getlines content) = Inl err"
    by (simp add: parse_lines_first_failure)
  then show "loadConfig L (Some content) g = (False, g)"
    by (simp add: loadConfig_def)
next
  assume "parse_line L st raw = Inl err"
  then show "\<exists>eq_pos. str_find CHR ''='' 0 (trim raw) = Some eq_pos
            \<and> conv_fails L (trim (drop (eq_pos + 1) (trim raw))) err"
    by (rule parse_line_Inl)
next
  assume "((sec, key) \<in> set stoi_keys \<and> stoi L v = Inl err)
        \<or> ((sec, key) \<in> set stoul_keys \<and> stoul L v = Inl err)
        \<or> ((sec, key) \<in> set stof_keys \<and> stof L v = Inl err)
        \<or> ((sec, key) \<in> set stod_keys \<and> stod L v = Inl err)"
  then show "assign_key L sec key v c = Inl err"
    by (auto intro: stoi_keys_fail stoul_keys_fail stof_keys_fail stod_keys_fail)
next
  assume a: "g_config_updated_flag s \<and> \<not> fst (loadConfig L (config_ini e) (g_config s))"
  then have r: "reload_phase L e s = s\<lparr>g_config_updated_flag := False\<rparr>"
    by (simp add: reload_phase_failed)
  show "g_config (main_tick L B e s) = g_config s"
    by (simp add: main_tick_config r)
  show "\<not> g_config_updated_flag (main_tick L B e s)"
    by (simp add: main_tick_config r)
  show "main_tick L B e s = main_tick L B e (s\<lparr>g_config_updated_flag := False\<rparr>)"
    using r by (rule main_tick_flag_irrelevant)
qed

lemma getlines_ini_bad:
  "getlines ini_bad = [''[pwm]'', ''pwm_min = 1150''] @ ''pwm_boost_max = x'' # []"
  by (simp add: getlines_def ini_bad_def)

lemma parse_ini_line1:
  "parse_line demo_conv (AppConfig_default, []) ''[pwm]'' = Inr (AppConfig_default, ''pwm'')"
  by (simp add: parse_line_def trim_def is_space_def toLower_def tolower_def substr_def Let_def)

lemma parse_ini_line2:
  "parse_line demo_conv (AppConfig_default, ''pwm'') ''pwm_min = 1150''
     = Inr (AppConfig_default\<lparr>pwm_min := 1150\<rparr>, ''pwm'')"
  by (simp add: parse_line_def trim_def is_space_def toLower_def tolower_def substr_def
      str_find_def assign_key_def assign_pwm_def stoi_to_def demo_conv_def Let_def)

lemma parse_ini_bad_prefix:
  "parse_lines demo_conv (AppConfig_default, []) [''[pwm]'', ''pwm_min = 1150'']
     = Inr (AppConfig_default\<lparr>pwm_min := 1150\<rparr>, ''pwm'')"
  by (simp add: parse_ini_line1 parse_ini_line2)

lemma parse_ini_bad_line:
  "parse_line demo_conv (AppConfig_default\<lparr>pwm_min := 1150\<rparr>, ''pwm'') ''pwm_boost_max = x''
     = Inl invalid_argument"
  by (simp add: parse_line_def trim_def is_space_def toLower_def tolower_def substr_def
      str_find_def assign_key_def assign_pwm_def stoi_to_def demo_conv_def Let_def)

theorem loadConfig_all_or_nothing_witness:
  "getlines ini_bad = [''[pwm]'', ''pwm_min = 1150''] @ ''pwm_boost_max = x'' # []
   \<and> parse_lines demo_conv (AppConfig_default, []) [''[pwm]'', ''pwm_min = 1150'']
       = Inr (AppConfig_default\<lparr>pwm_min := 1150\<rparr>, ''pwm'')
   \<and> parse_line demo_conv (AppConfig_default\<lparr>pwm_min := 1150\<rparr>, ''pwm'') ''pwm_boost_max = x''
       = Inl invalid_argument
   \<and> (''pwm'', ''pwm_boost_max'') \<in> set stoi_keys
   \<and> stoi demo_conv ''x'' = Inl invalid_argument
   \<and> g_config_updated_flag main_reload
   \<and> \<not> fst (loadConfig demo_conv (config_ini (tick_level\<lparr>config_ini := Some ini_bad\<rparr>))
              (g_config main_reload))
   \<and> loadConfig demo_conv (Some ini_bad) (AppConfig_default\<lparr>pwm_min := 1000\<rparr>)
       = (False, AppConfig_default\<lparr>pwm_min := 1000\<rparr>)
   \<and> g_config (main_tick demo_conv xinput_buttons (tick_level\<lparr>config_ini := Some ini_bad\<rparr>)
                 main_reload) = AppConfig_default\<lparr>pwm_min := 1000\<rparr>"
proof -
  note T = loadConfig_all_or_nothing [where L = demo_conv and ini = "Some ini_bad"
      and g = "AppConfig_default\<lparr>pwm_min := 1000\<rparr>" and content = ini_bad
      and ?ls1.0 = "[''[pwm]'', ''pwm_min = 1150'']" and l = "''pwm_boost_max = x''"
      and ?ls2.0 = "[]" and ?st1.0 = "(AppConfig_default\<lparr>pwm_min := 1150\<rparr>, ''pwm'')"
      and err = invalid_argument
      and st = "(AppConfig_default\<lparr>pwm_min := 1150\<rparr>, ''pwm'')"
      and raw = "''pwm_boost_max = x''" and sec = "''pwm''" and key = "''pwm_boost_max''"
      and v = "''x''" and c = AppConfig_default
      and s = main_reload and e = "tick_level\<lparr>config_ini := Some ini_bad\<rparr>"
      and B = xinput_buttons]
  have k: "(''pwm'', ''pwm_boost_max'') \<in> set stoi_keys" "stoi demo_conv ''x'' = Inl invalid_argument"
    by (simp_all add: stoi_keys_def demo_conv_def)
  have g: "g_config main_reload = AppConfig_default\<lparr>pwm_min := 1000\<rparr>"
          "g_config_updated_flag main_reload"
    by (simp_all add: main_reload_def)
  have c: "config_ini (tick_level\<lparr>config_ini := Some ini_bad\<rparr>) = Some ini_bad"
    by simp
  from T have l: "loadConfig demo_conv (Some ini_bad) (AppConfig_default\<lparr>pwm_min := 1000\<rparr>)
       = (False, AppConfig_default\<lparr>pwm_min := 1000\<rparr>)"
    using getlines_ini_bad parse_ini_bad_prefix parse_ini_bad_line by blast
  then have f: "\<not> fst (loadConfig demo_conv (config_ini (tick_level\<lparr>config_ini := Some ini_bad\<rparr>))
              (g_config main_reload))"
    by (simp add: g c)
  from T g(2) f have "g_config (main_tick demo_conv xinput_buttons (tick_level\<lparr>config_ini := Some ini_bad\<rparr>)
                 main_reload) = g_config main_reload"
    by blast
  then show ?thesis
    using getlines_ini_bad parse_ini_bad_prefix parse_ini_bad_line k g l f by simp
qed

lemma map_of_map_set: "map_of (map_set m k v) = (map_of m)(k \<mapsto> v)"
  by (induction m) (auto simp: fun_eq_iff)

lemma lookup_set_entry:
  "lookup_entry (set_entry m section key v) section' key' =
     (if section' = section \<and> key' = key then Some v else lookup_entry m section' key')"
  by (auto simp: lookup_entry_def set_entry_def map_of_map_set split: option.splits)

lemma takeWhile_not_mem: "c \<notin> set xs \<Longrightarrow> takeWhile (\<lambda>a. a \<noteq> c) xs = xs"
  by (induction xs) auto

lemma str_find_first:
  assumes "c \<notin> set xs"
  shows "str_find c 0 (xs @ c # ys) = Some (length xs)"
  using assms by (simp add: str_find_def takeWhile_tail takeWhile_not_mem)

lemma str_find_from:
  assumes "c \<notin> set ys"
  shows "str_find c (length xs) (xs @ ys @ c # zs) = Some (length xs + length ys)"
  using assms by (simp add: str_find_def takeWhile_tail takeWhile_not_mem)

lemma str_find_None: "c \<notin> set s \<Longrightarrow> str_find c pos s = None"
  by (auto simp: str_find_def dest: in_set_dropD)

lemma entry_of_well_formed:
  assumes "CHR '']'' \<notin> set section" and "CHR ''='' \<notin> set key"
  shows "entry_of (CHR ''['' # section @ CHR '']'' # key @ CHR ''='' # v) = Some (section, key, v)"
proof -
  let ?line = "CHR ''['' # section @ CHR '']'' # key @ CHR ''='' # v"
  have 1: "str_find CHR '']'' 0 ?line = Some (Suc (length section))"
    using str_find_first [of "CHR '']''" "CHR ''['' # section" "key @ CHR ''='' # v"] assms(1)
    by simp
  have 2: "str_find CHR ''='' (Suc (length section)) ?line
             = Some (Suc (length section) + Suc (length key))"
    using str_find_from [of "CHR ''=''" "CHR '']'' # key" "CHR ''['' # section" v] assms(2)
    by simp
  show ?thesis
    by (simp add: entry_of_def 1 2 substr_def)
qed

lemma entry_of_malformed:
  "line = [] \<or> hd line \<noteq> CHR ''['' \<or> CHR '']'' \<notin> set line \<or> CHR ''='' \<notin> set line
     \<Longrightarrow> entry_of line = None"
  by (auto simp: entry_of_def str_find_None split: option.splits)

lemma update_line_entry:
  "update_line (m, n) line =
     (case entry_of line of None \<Rightarrow> (m, n) | Some (section, key, v) \<Rightarrow> (set_entry m section key v, n + 1))"
  by (simp add: update_line_def split: option.splits)

lemma foldl_update_line:
  "foldl update_line (m, n) ls =
     (apply_entries m (List.map_filter entry_of ls), n + length (List.map_filter entry_of ls))"
proof (induction ls arbitrary: m n)
  case Nil
  show ?case by (simp add: apply_entries_def List.map_filter_simps)
next
  case (Cons l ls)
  show ?case
  proof (cases "entry_of l")
    case None
    then show ?thesis
      using Cons.IH [of m n] by (simp add: update_line_entry List.map_filter_simps)
  next
    case (Some a)
    obtain sec key v where a: "a = (sec, key, v)" by (cases a)
    show ?thesis
      using Cons.IH [of "set_entry m sec key v" "n + 1"] Some
      by (simp add: update_line_entry List.map_filter_simps a apply_entries_def)
  qed
qed

lemma update_config_from_string_eq:
  "update_config_from_string data s =
     (if entries_of data \<noteq> []
      then (save_config (s\<lparr>g_sync_config_data := apply_entries (g_sync_config_data s) (entries_of data)\<rparr>))
             \<lparr>updated_flag := True\<rparr>
      else s\<lparr>g_sync_config_data := apply_entries (g_sync_config_data s) (entries_of data)\<rparr>)"
  by (simp add: update_config_from_string_def Let_def foldl_update_line entries_of_def)

lemma apply_entries_Nil: "apply_entries m [] = m"
  by (simp add: apply_entries_def)

lemma entry_of_Some_form:
  assumes "entry_of line = Some en"
  shows "\<exists>section key v. en = (section, key, v)
           \<and> line = CHR ''['' # section @ CHR '']'' # key @ CHR ''='' # v
           \<and> CHR '']'' \<notin> set section \<and> CHR ''='' \<notin> set key"
proof -
  from assms have ne: "line \<noteq> []" and h: "hd line = CHR ''[''"
    by (auto simp: entry_of_def split: if_splits)
  then obtain rest where line: "line = CHR ''['' # rest" by (cases line) auto
  from assms ne h have "str_find CHR '']'' 0 line \<noteq> None"
    by (auto simp: entry_of_def split: option.splits)
  then have "CHR '']'' \<in> set rest"
    by (auto simp: str_find_def line split: if_splits)
  then obtain sct rest2 where rest: "rest = sct @ CHR '']'' # rest2"
    and s: "CHR '']'' \<notin> set sct"
    by (meson split_list_first)
  have se: "str_find CHR '']'' 0 line = Some (Suc (length sct))"
    using str_find_first [of "CHR '']''" "CHR ''['' # sct" rest2] s
    by (simp add: line rest)
  from assms ne h se have "str_find CHR ''='' (Suc (length sct)) line \<noteq> None"
    by (auto simp: entry_of_def split: option.splits)
  then have "CHR ''='' \<in> set rest2"
    by (auto simp: str_find_def line rest split: if_splits)
  then obtain key v where rest2: "rest2 = key @ CHR ''='' # v" and k: "CHR ''='' \<notin> set key"
    by (meson split_list_first)
  have "entry_of line = Some (sct, key, v)"
    using entry_of_well_formed [OF s k, of v] by (simp add: line rest rest2)
  with assms have "en = (sct, key, v)" by simp
  then show ?thesis using s k by (auto simp: line rest rest2)
qed

lemma update_config_from_string_none:
  "entries_of data = [] \<Longrightarrow> update_config_from_string data s = s"
  by (simp add: update_config_from_string_eq apply_entries_Nil)

lemma update_config_from_string_some:
  assumes "entries_of data \<noteq> []"
  shows "updated_flag (update_config_from_string data s)"
    and "config_file (update_config_from_string data s) =
           (if config_file_writable s
            then Some (render_config (apply_entries (g_sync_config_data s) (entries_of data)))
            else config_file s)"
  using assms by (simp_all add: update_config_from_string_eq save_config_def)

lemma update_config_from_string_map:
  "g_sync_config_data (update_config_from_string data s) =
     apply_entries (g_sync_config_data s) (entries_of data)"
  by (simp add: update_config_from_string_eq save_config_def)

text \<open>
  Claim C6, as amended.  A line is applied exactly when it has the form
  \<open>[section]key=value\<close>, with the section up to the first \<open>]\<close> and the key up to the
  first \<open>=\<close> after it; a line that lacks the leading \<open>[\<close>, the \<open>]\<close> or the \<open>=\<close> is
  passed over.  After a payload the section map is the old one with the entries of its
  applied lines upserted in order, whatever the other lines are.  If at least one line
  was applied, the reload flag is raised and the map is written to the parameter file
  (when the file can be opened for writing); if none was, the state is unchanged.
\<close>

theorem sync_payload_applied:
  "(CHR '']'' \<notin> set sct \<and> CHR ''='' \<notin> set key
      \<longrightarrow> entry_of (CHR ''['' # sct @ CHR '']'' # key @ CHR ''='' # v) = Some (sct, key, v))
   \<and> (line = [] \<or> hd line \<noteq> CHR ''['' \<or> CHR '']'' \<notin> set line \<or> CHR ''='' \<notin> set line
      \<longrightarrow> entry_of line = None)
   \<and> (entry_of line' = Some en
      \<longrightarrow> (\<exists>sct' key' v'. en = (sct', key', v')
             \<and> line' = CHR ''['' # sct' @ CHR '']'' # key' @ CHR ''='' # v'
             \<and> CHR '']'' \<notin> set sct' \<and> CHR ''='' \<notin> set key'))
   \<and> g_sync_config_data (update_config_from_string data s) =
       apply_entries (g_sync_config_data s) (entries_of data)
   \<and> lookup_entry (set_entry m sec k w) sec' k' =
       (if sec' = sec \<and> k' = k then Some w else lookup_entry m sec' k')
   \<and> (entries_of data \<noteq> []
      \<longrightarrow> updated_flag (update_config_from_string data s)
        \<and> config_file (update_config_from_string data s) =
            (if config_file_writable s
             then Some (render_config (apply_entries (g_sync_config_data s) (entries_of data)))
             else config_file s))
   \<and> (entries_of data0 = [] \<longrightarrow> update_config_from_string data0 s0 = s0)"
  using entry_of_Some_form [of line' en]
  by (simp add: entry_of_well_formed entry_of_malformed update_config_from_string_map
      lookup_set_entry update_config_from_string_some update_config_from_string_none)

lemma entries_of_payload_mixed:
  "entries_of payload_mixed = [(''pwm'', ''pwm_min'', ''1150''), (''led'', ''on_value'', ''1800'')]"
  by (simp add: entries_of_def payload_mixed_def getlines_def entry_of_def str_find_def
      substr_def List.map_filter_simps)

lemma entries_of_payload_malformed: "entries_of payload_malformed = []"
  by (simp add: entries_of_def payload_malformed_def getlines_def entry_of_def str_find_def
      substr_def List.map_filter_simps)

lemma apply_payload_mixed:
  "apply_entries (g_sync_config_data sync0)
     [(''pwm'', ''pwm_min'', ''1150''), (''led'', ''on_value'', ''1800'')]
   = [(''led'', [(''on_value'', ''1800'')]),
      (''pwm'', [(''pwm_boost_max'', ''1900''), (''pwm_min'', ''1150'')])]"
  by (simp add: apply_entries_def sync0_def set_entry_def)

theorem sync_payload_applied_witness:
  "CHR '']'' \<notin> set ''pwm'' \<and> CHR ''='' \<notin> set ''pwm_min''
   \<and> CHR ''='' \<notin> set ''[pwm]pwm_boost_max''
   \<and> entry_of ''[pwm]pwm_min=1150'' = Some (''pwm'', ''pwm_min'', ''1150'')
   \<and> entry_of ''[pwm]pwm_boost_max'' = None
   \<and> entries_of payload_mixed \<noteq> [] \<and> entries_of payload_malformed = []
   \<and> g_sync_config_data (update_config_from_string payload_mixed sync0)
       = [(''led'', [(''on_value'', ''1800'')]),
          (''pwm'', [(''pwm_boost_max'', ''1900''), (''pwm_min'', ''1150'')])]
   \<and> updated_flag (update_config_from_string payload_mixed sync0)
   \<and> config_file (update_config_from_string payload_mixed sync0)
       = Some (render_config [(''led'', [(''on_value'', ''1800'')]),
                              (''pwm'', [(''pwm_boost_max'', ''1900''), (''pwm_min'', ''1150'')])])
   \<and> update_config_from_string payload_malformed sync0 = sync0"
  using sync_payload_applied [where sct = "''pwm''" and key = "''pwm_min''" and v = "''1150''"
      and line = "''[pwm]pwm_boost_max''" and line' = "''[pwm]pwm_min=1150''"
      and en = "(''pwm'', ''pwm_min'', ''1150'')" and data = payload_mixed and s = sync0
      and ?data0.0 = payload_malformed and ?s0.0 = sync0]
  by (simp add: entries_of_payload_mixed entries_of_payload_malformed apply_payload_mixed)
    (simp add: sync0_def)

text \<open>
  Claim C6 as stated fails for a payload without a well-formed line: the flag is not
  raised and the file is not written.
\<close>

theorem sync_payload_applied_counterexample:
  "\<not> updated_flag (update_config_from_string payload_malformed sync0)
   \<and> config_file (update_config_from_string payload_malformed sync0) = Some ''old text''
   \<and> config_file (update_config_from_string payload_malformed sync0)
       \<noteq> Some (render_config
                  (g_sync_config_data (update_config_from_string payload_malformed sync0)))"
  by (simp add: update_config_from_string_none entries_of_payload_malformed)
    (simp add: sync0_def render_config_def render_section_def)

lemma length_pwm_lx: "length (pwm_lx g data) = 4"
  by (simp add: pwm_lx_def Let_def)

lemma length_pwm_rx: "length (pwm_rx g data) = 4"
  by (simp add: pwm_rx_def Let_def)

lemma less_4_cases: "i < (4::nat) \<Longrightarrow> i = 0 \<or> i = 1 \<or> i = 2 \<or> i = 3"
  by arith

lemma combine_contributions_active:
  assumes "lx_active g data" and "rx_active g data" and "i < 4"
  shows "combine_contributions g data ! i =
           max (pwm_lx g data ! i) (pwm_rx g data ! i)
             + (if i = boosted_channel data then boost_add g data else 0)"
  using less_4_cases [OF assms(3)] assms(1,2)
  by (auto simp add: combine_contributions_def boosted_channel_def Let_def)

lemma length_combine_contributions: "length (combine_contributions g data) = 4"
  by (simp add: combine_contributions_def Let_def)

lemma static_cast_int_0: "static_cast_int 0 = 0"
  by (simp add: static_cast_int_def)

lemma list4_eq: "length xs = 4 \<Longrightarrow> [xs ! 0, xs ! Suc 0, xs ! 2, xs ! 3] = xs"
  by (auto simp: numeral_eq_Suc length_Suc_conv)

lemma update_horizontal_no_gyro:
  assumes "lx_active g data" and "axis_x gy = 0" and "axis_z gy = 0"
  shows "update_horizontal_thrusters g data gy = combine_contributions g data"
  using assms
  by (simp add: update_horizontal_thrusters_def idle_yaw_correction_def
      roll_yaw_correction_def Let_def static_cast_int_0 list4_eq length_combine_contributions)

lemma map_value_range:
  assumes "out_min \<le> out_max"
  shows "out_min \<le> map_value v in_min in_max out_min out_max
         \<and> map_value v in_min in_max out_min out_max \<le> out_max"
proof (cases "in_max = in_min")
  case True
  then show ?thesis using assms by (simp add: map_value_def)
next
  case False
  show ?thesis
  proof (cases "in_min < in_max")
    case True
    define c where "c = max in_min (min v in_max)"
    have c: "in_min \<le> c" "c \<le> in_max" using True by (auto simp: c_def)
    define q where "q = (c - in_min) / (in_max - in_min)"
    have q: "0 \<le> q" "q \<le> 1" using c True by (auto simp: q_def divide_simps)
    have eq: "map_value v in_min in_max out_min out_max = q * (out_max - out_min) + out_min"
      using True by (simp add: map_value_def Let_def c_def q_def)
    have "0 \<le> q * (out_max - out_min)" using q assms by simp
    moreover have "q * (out_max - out_min) \<le> 1 * (out_max - out_min)"
      using q assms by (intro mult_right_mono) auto
    ultimately show ?thesis unfolding eq by auto
  next
    case F2: False
    with False have "in_max < in_min" by simp
    then have "max in_min (min v in_max) = in_min" by auto
    then show ?thesis using assms False by (simp add: map_value_def Let_def)
  qed
qed

lemma static_cast_int_range:
  "real_of_int a \<le> r \<Longrightarrow> r \<le> real_of_int b \<Longrightarrow> a \<le> static_cast_int r \<and> static_cast_int r \<le> b"
  unfolding static_cast_int_def
  by (auto simp: le_floor_iff floor_le_iff ceiling_le_iff le_ceiling_iff)

lemma boost_add_range:
  assumes "pwm_normal_max g \<le> pwm_boost_max g"
  shows "0 \<le> boost_add g data \<and> boost_add g data \<le> pwm_boost_max g - pwm_normal_max g"
proof -
  have "real_of_int 0 \<le> real_of_int (pwm_boost_max g - pwm_normal_max g)"
    using assms by simp
  from map_value_range [OF this] show ?thesis
    unfolding boost_add_def Let_def
    by (intro static_cast_int_range) auto
qed

lemma roll_yaw_correction_active:
  assumes "rx_active g data" and "length tgt = 4" and "i < 4"
  shows "roll_yaw_correction g data gy tgt ! i =
           tgt ! i + (if i = 1 \<or> i = 2
                      then static_cast_int (axis_x gy * kp_roll g)
                           + static_cast_int (axis_z gy * kp_yaw g)
                      else - (static_cast_int (axis_x gy * kp_roll g)
                              + static_cast_int (axis_z gy * kp_yaw g)))"
  using less_4_cases [OF assms(3)] assms(1)
  by (auto simp add: roll_yaw_correction_def Let_def)

lemma update_horizontal_both_active:
  assumes "lx_active g data" and "rx_active g data" and "i < 4"
  shows "update_horizontal_thrusters g data gy ! i =
           max (pwm_lx g data ! i) (pwm_rx g data ! i)
             + (if i = boosted_channel data then boost_add g data else 0)
             + (if i = 1 \<or> i = 2
                then static_cast_int (axis_x gy * kp_roll g)
                     + static_cast_int (axis_z gy * kp_yaw g)
                else - (static_cast_int (axis_x gy * kp_roll g)
                        + static_cast_int (axis_z gy * kp_yaw g)))"
proof -
  have "update_horizontal_thrusters g data gy =
          roll_yaw_correction g data gy (combine_contributions g data)"
    using assms(1) by (simp add: update_horizontal_thrusters_def idle_yaw_correction_def)
  then show ?thesis
    using roll_yaw_correction_active [OF assms(2) length_combine_contributions assms(3), of gy]
      combine_contributions_active [OF assms]
    by simp
qed

text \<open>
  Claim C7, as amended.  When both the rotation axis and the strafe axis exceed the
  deadzone, the target array has, after the combination step of
  \<^verbatim>\<open>update_horizontal_thrusters\<close>, on every channel the larger of the two contributions, and
  on exactly one channel, the one selected by the signs of the two axes, the boost in
  addition.  The boost is the truncated linear clamped map of the smaller of the two
  magnitudes from \<open>[deadzone, 32768]\<close> onto \<open>[0, pwm_boost_max - pwm_normal_max]\<close>, and
  lies in that interval.  The targets that the function returns are these values with
  the roll and yaw correction, the sum of the truncated products of the roll rate with
  \<open>kp_roll\<close> and of the yaw rate with \<open>kp_yaw\<close>, added on channels 1 and 2 and subtracted on
  channels 0 and 3; with the gyro at rest they are these values themselves.
\<close>

theorem boost_on_one_channel:
  assumes "lx_active g data" and "rx_active g data"
  shows "length (combine_contributions g data) = 4
         \<and> boosted_channel data < 4
         \<and> (\<forall>i<4. combine_contributions g data ! i =
                     max (pwm_lx g data ! i) (pwm_rx g data ! i)
                       + (if i = boosted_channel data then boost_add g data else 0))
         \<and> boost_add g data =
             static_cast_int
               (map_value (real_of_int (min \<bar>leftThumbX data\<bar> \<bar>rightThumbX data\<bar>))
                  (real_of_int (joystick_deadzone g)) 32768
                  0 (real_of_int (pwm_boost_max g - pwm_normal_max g)))
         \<and> (pwm_normal_max g \<le> pwm_boost_max g \<longrightarrow>
               0 \<le> boost_add g data \<and> boost_add g data \<le> pwm_boost_max g - pwm_normal_max g)
         \<and> (\<forall>i<4. update_horizontal_thrusters g data gy ! i =
                     max (pwm_lx g data ! i) (pwm_rx g data ! i)
                       + (if i = boosted_channel data then boost_add g data else 0)
                       + (if i = 1 \<or> i = 2
                          then static_cast_int (axis_x gy * kp_roll g)
                               + static_cast_int (axis_z gy * kp_yaw g)
                          else - (static_cast_int (axis_x gy * kp_roll g)
                                  + static_cast_int (axis_z gy * kp_yaw g))))
         \<and> (axis_x gy = 0 \<and> axis_z gy = 0 \<longrightarrow>
               update_horizontal_thrusters g data gy = combine_contributions g data)"
  using assms
  by (simp add: length_combine_contributions combine_contributions_active boost_add_range
      update_horizontal_no_gyro update_horizontal_both_active)
    (simp add: boosted_channel_def boost_add_def Let_def)

theorem boost_on_one_channel_witness:
  "lx_active cfg_boost sample_both \<and> rx_active cfg_boost sample_both
   \<and> pwm_normal_max cfg_boost \<le> pwm_boost_max cfg_boost
   \<and> axis_x gyro_zero = 0 \<and> axis_z gyro_zero = 0
   \<and> boosted_channel sample_both = 2
   \<and> boost_add cfg_boost sample_both = 99
   \<and> update_horizontal_thrusters cfg_boost sample_both gyro_zero = [1900, 1900, 1999, 1100]"
  using boost_on_one_channel [of cfg_boost sample_both gyro_zero]
  by (simp add: combine_contributions_def cfg_boost_def sample_both_def gyro_zero_def
      AppConfig_default_def lx_active_def rx_active_def pwm_lx_def pwm_rx_def boost_add_def
      boosted_channel_def map_value_def Let_def static_cast_int_def)

text \<open>
  Claim C7 as stated fails for the targets that the function returns: with a boost range
  of 100, rotation fully left, strafe fully right and a roll rate of 10 degrees per
  second, channel 2 gets 2001 instead of 1999 and the other channels 1898, 1902 and 1098
  instead of 1900, 1900 and 1100.
\<close>

theorem boost_on_one_channel_counterexample:
  "lx_active cfg_boost sample_both \<and> rx_active cfg_boost sample_both
   \<and> pwm_lx cfg_boost sample_both = [1100, 1900, 1900, 1100]
   \<and> pwm_rx cfg_boost sample_both = [1900, 1100, 1900, 1100]
   \<and> boost_add cfg_boost sample_both = 99
   \<and> update_horizontal_thrusters cfg_boost sample_both \<lparr> axis_x = 10, axis_y = 0, axis_z = 0 \<rparr>
       = [1898, 1902, 2001, 1098]"
  by (simp add: update_horizontal_thrusters_def idle_yaw_correction_def roll_yaw_correction_def
      combine_contributions_def cfg_boost_def sample_both_def
      AppConfig_default_def lx_active_def rx_active_def pwm_lx_def pwm_rx_def boost_add_def
      map_value_def Let_def static_cast_int_def)

text \<open>
  Claim C8, as amended.  When both horizontal stick axes are within the deadzone and the
  magnitude of the gyro yaw rate does not exceed \<open>yaw_threshold_dps\<close>, all four horizontal
  targets equal \<open>pwm_min\<close>.
\<close>

theorem idle_sticks_targets_min:
  assumes "\<bar>leftThumbX data\<bar> \<le> joystick_deadzone g"
      and "\<bar>rightThumbX data\<bar> \<le> joystick_deadzone g"
      and "\<bar>axis_z gy\<bar> \<le> yaw_threshold_dps g"
  shows "update_horizontal_thrusters g data gy = [pwm_min g, pwm_min g, pwm_min g, pwm_min g]"
proof -
  have l: "\<not> leftThumbX data < - joystick_deadzone g" "\<not> leftThumbX data > joystick_deadzone g"
    using assms(1) by auto
  have r: "\<not> rightThumbX data < - joystick_deadzone g" "\<not> rightThumbX data > joystick_deadzone g"
    using assms(2) by auto
  have a: "\<not> lx_active g data" "\<not> rx_active g data"
    using assms(1,2) by (auto simp: lx_active_def rx_active_def)
  have c: "combine_contributions g data = [pwm_min g, pwm_min g, pwm_min g, pwm_min g]"
    using l r a by (simp add: combine_contributions_def pwm_lx_def pwm_rx_def)
  show ?thesis
    using a assms(3)
    by (simp add: update_horizontal_thrusters_def idle_yaw_correction_def
        roll_yaw_correction_def c)
qed

theorem idle_sticks_targets_min_witness:
  "\<bar>leftThumbX GamepadData_zero\<bar> \<le> joystick_deadzone AppConfig_default
   \<and> \<bar>rightThumbX GamepadData_zero\<bar> \<le> joystick_deadzone AppConfig_default
   \<and> \<bar>axis_z \<lparr> axis_x = 3, axis_y = 0, axis_z = 1 / 2 \<rparr>\<bar> \<le> yaw_threshold_dps AppConfig_default
   \<and> update_horizontal_thrusters AppConfig_default GamepadData_zero
         \<lparr> axis_x = 3, axis_y = 0, axis_z = 1 / 2 \<rparr> = [1100, 1100, 1100, 1100]"
  using idle_sticks_targets_min [of GamepadData_zero AppConfig_default
      "\<lparr> axis_x = 3, axis_y = 0, axis_z = 1 / 2 \<rparr>"]
  by (simp add: AppConfig_default_def GamepadData_zero_def)

text \<open>
  Claim C8 as stated fails: with the default parameters, both sticks at rest and a yaw
  rate of 1 degree per second, the idle yaw correction raises channels 1 and 2 to 1500.
\<close>

theorem idle_sticks_counterexample:
  "update_horizontal_thrusters AppConfig_default GamepadData_zero
     \<lparr> axis_x = 0, axis_y = 0, axis_z = 1 \<rparr> = [1100, 1500, 1500, 1100]"
  by (simp add: update_horizontal_thrusters_def idle_yaw_correction_def
      roll_yaw_correction_def combine_contributions_def pwm_lx_def pwm_rx_def
      lx_active_def rx_active_def AppConfig_default_def GamepadData_zero_def
      static_cast_int_def Let_def)

lemma foldl_smooth_horizontal_other:
  "i \<notin> set js \<Longrightarrow> foldl (smooth_horizontal g tgt) cur js i = cur i"
  by (induction js arbitrary: cur) (auto simp: smooth_horizontal_def)

lemma current_pwm_values_update_led_states:
  "current_pwm_values (update_led_states B gp t) = current_pwm_values t"
  by (simp add: update_led_states_def Let_def)

lemma current_pwm_values_thruster_update:
  "current_pwm_values (thruster_update g B gp gy t) =
     smooth_all g (update_horizontal_thrusters g gp gy)
       (calculate_forward_reverse_pwm g (rightThumbY gp)) (current_pwm_values t)"
  by (simp add: thruster_update_def Let_def current_pwm_values_update_led_states)

lemma smooth_all_4:
  "smooth_all g th tf cur 4 =
     (if real_of_int tf > cur 4
      then smooth_interpolate (cur 4) (real_of_int tf) (smoothing_factor_vertical g)
      else real_of_int tf)"
  by (simp add: smooth_all_def Let_def smooth_vertical_def foldl_smooth_horizontal_other)

lemma smooth_all_5:
  "smooth_all g th tf cur 5 =
     (if real_of_int tf > cur 5
      then smooth_interpolate (cur 5) (real_of_int tf) (smoothing_factor_vertical g)
      else real_of_int tf)"
  by (simp add: smooth_all_def Let_def smooth_vertical_def foldl_smooth_horizontal_other)

lemma smooth_all_4_explicit:
  "smooth_all g th tf cur 4 =
     (if real_of_int tf > cur 4
      then cur 4 + (real_of_int tf - cur 4) * smoothing_factor_vertical g
      else real_of_int tf)"
  by (simp add: smooth_all_4 smooth_interpolate_def)

lemma smooth_all_5_explicit:
  "smooth_all g th tf cur 5 =
     (if real_of_int tf > cur 5
      then cur 5 + (real_of_int tf - cur 5) * smoothing_factor_vertical g
      else real_of_int tf)"
  by (simp add: smooth_all_5 smooth_interpolate_def)

lemma ramp_towards:
  fixes c tg f :: real
  assumes "tg > c" and "0 < f" and "f \<le> 1"
  shows "c < c + (tg - c) * f \<and> c + (tg - c) * f \<le> tg
         \<and> tg - (c + (tg - c) * f) = (1 - f) * (tg - c)"
proof -
  have d: "0 < tg - c" using assms(1) by simp
  have 1: "0 < (tg - c) * f" using d assms(2) by simp
  have 2: "(tg - c) * f \<le> (tg - c) * 1"
    using d assms(3) by (intro mult_left_mono) simp_all
  have 3: "tg - (c + (tg - c) * f) = (1 - f) * (tg - c)" by (simp add: algebra_simps)
  show ?thesis using 1 2 3 by simp
qed

text \<open>
  Claim C9.  After \<^verbatim>\<open>thruster_update\<close> the smoothed value of each of the channels 4 and 5
  is \<open>current + (target - current) * smoothing_factor_vertical\<close> when the target is
  strictly greater than the old value, and is the target itself otherwise; the target is
  \<open>pwm_min\<close> up to the deadzone and the truncated linear map of the stick above it.  So a
  target that is lower or equal is reached in this one call, and a higher target, for a
  factor in \<open>(0, 1]\<close>, is approached without overshoot: the new value lies strictly above
  the old one, at most at the target, and the remaining distance is \<open>1 - factor\<close> times
  the old distance.
\<close>

theorem forward_channels_asymmetric_smoothing:
  "current_pwm_values (thruster_update g B gp gy t) 4 =
     (if real_of_int (calculate_forward_reverse_pwm g (rightThumbY gp)) > current_pwm_values t 4
      then current_pwm_values t 4
           + (real_of_int (calculate_forward_reverse_pwm g (rightThumbY gp)) - current_pwm_values t 4)
             * smoothing_factor_vertical g
      else real_of_int (calculate_forward_reverse_pwm g (rightThumbY gp)))
   \<and> current_pwm_values (thruster_update g B gp gy t) 5 =
     (if real_of_int (calculate_forward_reverse_pwm g (rightThumbY gp)) > current_pwm_values t 5
      then current_pwm_values t 5
           + (real_of_int (calculate_forward_reverse_pwm g (rightThumbY gp)) - current_pwm_values t 5)
             * smoothing_factor_vertical g
      else real_of_int (calculate_forward_reverse_pwm g (rightThumbY gp)))
   \<and> calculate_forward_reverse_pwm g (rightThumbY gp) =
       (if rightThumbY gp \<le> joystick_deadzone g then pwm_min g
        else static_cast_int
               (map_value (real_of_int (rightThumbY gp)) (real_of_int (joystick_deadzone g)) 32767
                  (real_of_int (pwm_min g)) (real_of_int (pwm_boost_max g))))
   \<and> (real_of_int (calculate_forward_reverse_pwm g (rightThumbY gp)) > current_pwm_values t 4
        \<and> 0 < smoothing_factor_vertical g \<and> smoothing_factor_vertical g \<le> 1
      \<longrightarrow> current_pwm_values t 4 < current_pwm_values (thruster_update g B gp gy t) 4
        \<and> current_pwm_values (thruster_update g B gp gy t) 4
            \<le> real_of_int (calculate_forward_reverse_pwm g (rightThumbY gp))
        \<and> real_of_int (calculate_forward_reverse_pwm g (rightThumbY gp))
            - current_pwm_values (thruster_update g B gp gy t) 4
          = (1 - smoothing_factor_vertical g)
            * (real_of_int (calculate_forward_reverse_pwm g (rightThumbY gp))
               - current_pwm_values t 4))
   \<and> (real_of_int (calculate_forward_reverse_pwm g (rightThumbY gp)) > current_pwm_values t 5
        \<and> 0 < smoothing_factor_vertical g \<and> smoothing_factor_vertical g \<le> 1
      \<longrightarrow> current_pwm_values t 5 < current_pwm_values (thruster_update g B gp gy t) 5
        \<and> current_pwm_values (thruster_update g B gp gy t) 5
            \<le> real_of_int (calculate_forward_reverse_pwm g (rightThumbY gp))
        \<and> real_of_int (calculate_forward_reverse_pwm g (rightThumbY gp))
            - current_pwm_values (thruster_update g B gp gy t) 5
          = (1 - smoothing_factor_vertical g)
            * (real_of_int (calculate_forward_reverse_pwm g (rightThumbY gp))
               - current_pwm_values t 5))
   \<and> (real_of_int (calculate_forward_reverse_pwm g (rightThumbY gp)) \<le> current_pwm_values t 4
      \<longrightarrow> current_pwm_values (thruster_update g B gp gy t) 4
          = real_of_int (calculate_forward_reverse_pwm g (rightThumbY gp)))
   \<and> (real_of_int (calculate_forward_reverse_pwm g (rightThumbY gp)) \<le> current_pwm_values t 5
      \<longrightarrow> current_pwm_values (thruster_update g B gp gy t) 5
          = real_of_int (calculate_forward_reverse_pwm g (rightThumbY gp)))"
proof -
  let ?tf = "real_of_int (calculate_forward_reverse_pwm g (rightThumbY gp))"
  have n4: "current_pwm_values (thruster_update g B gp gy t) 4 =
     (if ?tf > current_pwm_values t 4
      then current_pwm_values t 4 + (?tf - current_pwm_values t 4) * smoothing_factor_vertical g
      else ?tf)"
    by (simp only: current_pwm_values_thruster_update smooth_all_4_explicit)
  have n5: "current_pwm_values (thruster_update g B gp gy t) 5 =
     (if ?tf > current_pwm_values t 5
      then current_pwm_values t 5 + (?tf - current_pwm_values t 5) * smoothing_factor_vertical g
      else ?tf)"
    by (simp only: current_pwm_values_thruster_update smooth_all_5_explicit)
  have c: "calculate_forward_reverse_pwm g (rightThumbY gp) =
       (if rightThumbY gp \<le> joystick_deadzone g then pwm_min g
        else static_cast_int
               (map_value (real_of_int (rightThumbY gp)) (real_of_int (joystick_deadzone g)) 32767
                  (real_of_int (pwm_min g)) (real_of_int (pwm_boost_max g))))"
    by (simp add: calculate_forward_reverse_pwm_def)
  have r4: "?tf > current_pwm_values t 4
        \<and> 0 < smoothing_factor_vertical g \<and> smoothing_factor_vertical g \<le> 1
      \<longrightarrow> current_pwm_values t 4 < current_pwm_values (thruster_update g B gp gy t) 4
        \<and> current_pwm_values (thruster_update g B gp gy t) 4 \<le> ?tf
        \<and> ?tf - current_pwm_values (thruster_update g B gp gy t) 4
          = (1 - smoothing_factor_vertical g) * (?tf - current_pwm_values t 4)"
    using ramp_towards [of "current_pwm_values t 4" ?tf "smoothing_factor_vertical g"]
    by (simp add: n4)
  have r5: "?tf > current_pwm_values t 5
        \<and> 0 < smoothing_factor_vertical g \<and> smoothing_factor_vertical g \<le> 1
      \<longrightarrow> current_pwm_values t 5 < current_pwm_values (thruster_update g B gp gy t) 5
        \<and> current_pwm_values (thruster_update g B gp gy t) 5 \<le> ?tf
        \<and> ?tf - current_pwm_values (thruster_update g B gp gy t) 5
          = (1 - smoothing_factor_vertical g) * (?tf - current_pwm_values t 5)"
    using ramp_towards [of "current_pwm_values t 5" ?tf "smoothing_factor_vertical g"]
    by (simp add: n5)
  have s4: "?tf \<le> current_pwm_values t 4
      \<longrightarrow> current_pwm_values (thruster_update g B gp gy t) 4 = ?tf"
    by (simp add: n4)
  have s5: "?tf \<le> current_pwm_values t 5
      \<longrightarrow> current_pwm_values (thruster_update g B gp gy t) 5 = ?tf"
    by (simp add: n5)
  show ?thesis
    using n4 n5 c r4 r5 s4 s5 by blast
qed

text \<open>With the default parameters: from 1100 us and the forward stick fully pushed
  (target 1900) both channels go to 1132; from 1500 us and the stick at rest (target
  1100) both channels go to 1100 at once.\<close>

theorem forward_channels_asymmetric_smoothing_witness:
  "real_of_int (calculate_forward_reverse_pwm AppConfig_default (rightThumbY sample_forward)) = 1900
   \<and> current_pwm_values (thruster_at 1100) 4 = 1100
   \<and> current_pwm_values (thruster_at 1100) 5 = 1100
   \<and> 0 < smoothing_factor_vertical AppConfig_default
   \<and> smoothing_factor_vertical AppConfig_default \<le> 1
   \<and> current_pwm_values
        (thruster_update AppConfig_default xinput_buttons sample_forward gyro_zero
           (thruster_at 1100)) 4 = 1132
   \<and> current_pwm_values
        (thruster_update AppConfig_default xinput_buttons sample_forward gyro_zero
           (thruster_at 1100)) 5 = 1132
   \<and> real_of_int (calculate_forward_reverse_pwm AppConfig_default (rightThumbY GamepadData_zero)) = 1100
   \<and> current_pwm_values (thruster_at 1500) 4 = 1500
   \<and> current_pwm_values (thruster_at 1500) 5 = 1500
   \<and> current_pwm_values
        (thruster_update AppConfig_default xinput_buttons GamepadData_zero gyro_zero
           (thruster_at 1500)) 4 = 1100
   \<and> current_pwm_values
        (thruster_update AppConfig_default xinput_buttons GamepadData_zero gyro_zero
           (thruster_at 1500)) 5 = 1100"
proof -
  have a: "calculate_forward_reverse_pwm AppConfig_default (rightThumbY sample_forward) = 1900"
    by (simp add: calculate_forward_reverse_pwm_def sample_forward_def GamepadData_zero_def
        AppConfig_default_def map_value_def static_cast_int_def Let_def)
  have b: "calculate_forward_reverse_pwm AppConfig_default (rightThumbY GamepadData_zero) = 1100"
    by (simp add: calculate_forward_reverse_pwm_def GamepadData_zero_def AppConfig_default_def)
  have v: "current_pwm_values (thruster_at 1100) = (\<lambda>i. 1100)"
          "current_pwm_values (thruster_at 1500) = (\<lambda>i. 1500)"
    by (simp_all add: thruster_at_def)
  have f: "smoothing_factor_vertical AppConfig_default = 4 / 100"
    by (simp add: AppConfig_default_def)
  show ?thesis
    using forward_channels_asymmetric_smoothing [of AppConfig_default xinput_buttons sample_forward gyro_zero "thruster_at 1100"]
      forward_channels_asymmetric_smoothing [of AppConfig_default xinput_buttons GamepadData_zero gyro_zero "thruster_at 1500"]
    by (simp add: a b v f)
qed

lemma led_fields_thruster_update:
  "current_led_state (thruster_update g B gp gy t) =
     (if led_edge (button_pressed (buttons gp) (Y_mask B)) (y_button_previously_pressed t)
      then led1_next (current_led_state t) else current_led_state t)"
  "y_button_previously_pressed (thruster_update g B gp gy t) =
     button_pressed (buttons gp) (Y_mask B)"
  "current_led2_state (thruster_update g B gp gy t) =
     (if led_edge (button_pressed (buttons gp) (DPadUp_mask B)) (dpad_up_button_previously_pressed t)
      then ledn_next (current_led2_state t) else current_led2_state t)"
  "dpad_up_button_previously_pressed (thruster_update g B gp gy t) =
     button_pressed (buttons gp) (DPadUp_mask B)"
  "current_led3_state (thruster_update g B gp gy t) =
     (if led_edge (button_pressed (buttons gp) (DPadDown_mask B)) (dpad_down_button_previously_pressed t)
      then ledn_next (current_led3_state t) else current_led3_state t)"
  "dpad_down_button_previously_pressed (thruster_update g B gp gy t) =
     button_pressed (buttons gp) (DPadDown_mask B)"
  "current_led4_state (thruster_update g B gp gy t) =
     (if led_edge (button_pressed (buttons gp) (DPadLeft_mask B)) (dpad_left_button_previously_pressed t)
      then ledn_next (current_led4_state t) else current_led4_state t)"
  "dpad_left_button_previously_pressed (thruster_update g B gp gy t) =
     button_pressed (buttons gp) (DPadLeft_mask B)"
  "current_led5_state (thruster_update g B gp gy t) =
     (if led_edge (button_pressed (buttons gp) (DPadRight_mask B)) (dpad_right_button_previously_pressed t)
      then ledn_next (current_led5_state t) else current_led5_state t)"
  "dpad_right_button_previously_pressed (thruster_update g B gp gy t) =
     button_pressed (buttons gp) (DPadRight_mask B)"
  by (simp_all add: thruster_update_def update_led_states_def Let_def)

lemma run_updates_Nil: "run_updates B [] t = t"
  by (simp add: run_updates_def)

lemma run_updates_Cons:
  "run_updates B ((g, gp, gy) # ticks) t = run_updates B ticks (thruster_update g B gp gy t)"
  by (simp add: run_updates_def)

lemma presses_Nil: "presses msk [] = []"
  by (simp add: presses_def)

lemma presses_Cons:
  "presses msk ((g, gp, gy) # ticks) = button_pressed (buttons gp) msk # presses msk ticks"
  by (simp add: presses_def)

lemma run_updates_led1:
  "current_led_state (run_updates B ticks t) =
     (led1_next ^^ rising_edges (y_button_previously_pressed t) (presses (Y_mask B) ticks))
       (current_led_state t)"
proof (induction ticks arbitrary: t)
  case Nil
  show ?case by (simp add: run_updates_Nil presses_Nil)
next
  case (Cons a ticks)
  obtain g gp gy where a: "a = (g, gp, gy)" by (cases a)
  show ?case
    unfolding a run_updates_Cons presses_Cons Cons.IH
    by (simp add: led_fields_thruster_update led_edge_def funpow_swap1)
qed

lemma run_updates_led2:
  "current_led2_state (run_updates B ticks t) =
     (ledn_next ^^ rising_edges (dpad_up_button_previously_pressed t) (presses (DPadUp_mask B) ticks))
       (current_led2_state t)"
proof (induction ticks arbitrary: t)
  case Nil
  show ?case by (simp add: run_updates_Nil presses_Nil)
next
  case (Cons a ticks)
  obtain g gp gy where a: "a = (g, gp, gy)" by (cases a)
  show ?case
    unfolding a run_updates_Cons presses_Cons Cons.IH
    by (simp add: led_fields_thruster_update led_edge_def funpow_swap1)
qed

lemma run_updates_led3:
  "current_led3_state (run_updates B ticks t) =
     (ledn_next ^^ rising_edges (dpad_down_button_previously_pressed t) (presses (DPadDown_mask B) ticks))
       (current_led3_state t)"
proof (induction ticks arbitrary: t)
  case Nil
  show ?case by (simp add: run_updates_Nil presses_Nil)
next
  case (Cons a ticks)
  obtain g gp gy where a: "a = (g, gp, gy)" by (cases a)
  show ?case
    unfolding a run_updates_Cons presses_Cons Cons.IH
    by (simp add: led_fields_thruster_update led_edge_def funpow_swap1)
qed

lemma run_updates_led4:
  "current_led4_state (run_updates B ticks t) =
     (ledn_next ^^ rising_edges (dpad_left_button_previously_pressed t) (presses (DPadLeft_mask B) ticks))
       (current_led4_state t)"
proof (induction ticks arbitrary: t)
  case Nil
  show ?case by (simp add: run_updates_Nil presses_Nil)
next
  case (Cons a ticks)
  obtain g gp gy where a: "a = (g, gp, gy)" by (cases a)
  show ?case
    unfolding a run_updates_Cons presses_Cons Cons.IH
    by (simp add: led_fields_thruster_update led_edge_def funpow_swap1)
qed

lemma run_updates_led5:
  "current_led5_state (run_updates B ticks t) =
     (ledn_next ^^ rising_edges (dpad_right_button_previously_pressed t) (presses (DPadRight_mask B) ticks))
       (current_led5_state t)"
proof (induction ticks arbitrary: t)
  case Nil
  show ?case by (simp add: run_updates_Nil presses_Nil)
next
  case (Cons a ticks)
  obtain g gp gy where a: "a = (g, gp, gy)" by (cases a)
  show ?case
    unfolding a run_updates_Cons presses_Cons Cons.IH
    by (simp add: led_fields_thruster_update led_edge_def funpow_swap1)
qed

lemma led1_period: "st \<in> {LedOFF, LedON} \<Longrightarrow> (led1_next ^^ 2) st = st"
  by (auto simp: led1_next_def numeral_2_eq_2)

lemma ledn_period: "st \<in> {LedOFF, LedON1, LedON2, LedMAX} \<Longrightarrow> (ledn_next ^^ 4) st = st"
  by (auto simp: ledn_next_def numeral_eq_Suc)

lemma led_next_table:
  "led1_next LedOFF = LedON \<and> led1_next LedON = LedOFF
   \<and> ledn_next LedOFF = LedON1 \<and> ledn_next LedON1 = LedON2
   \<and> ledn_next LedON2 = LedMAX \<and> ledn_next LedMAX = LedOFF"
  by (simp add: led1_next_def ledn_next_def)

text \<open>
  Claim C10.  In every call of \<^verbatim>\<open>thruster_update\<close> each accessory keeps its state unless
  its button is pressed now and was not pressed in the previous call; on such an edge
  accessory 1 goes from OFF to ON and from ON to OFF, and accessories 2 to 5 go
  OFF, ON1, ON2, MAX, OFF.  Over any run of calls the state of an accessory is its
  initial state advanced once per rising edge, so accessory 1 is back after 2 edges and
  accessories 2 to 5 after 4.
\<close>

theorem accessory_state_machine:
  "current_led_state (thruster_update g B gp gy t) =
     (if button_pressed (buttons gp) (Y_mask B) \<and> \<not> y_button_previously_pressed t
      then led1_next (current_led_state t) else current_led_state t)
   \<and> current_led2_state (thruster_update g B gp gy t) =
     (if button_pressed (buttons gp) (DPadUp_mask B) \<and> \<not> dpad_up_button_previously_pressed t
      then ledn_next (current_led2_state t) else current_led2_state t)
   \<and> current_led3_state (thruster_update g B gp gy t) =
     (if button_pressed (buttons gp) (DPadDown_mask B) \<and> \<not> dpad_down_button_previously_pressed t
      then ledn_next (current_led3_state t) else current_led3_state t)
   \<and> current_led4_state (thruster_update g B gp gy t) =
     (if button_pressed (buttons gp) (DPadLeft_mask B) \<and> \<not> dpad_left_button_previously_pressed t
      then ledn_next (current_led4_state t) else current_led4_state t)
   \<and> current_led5_state (thruster_update g B gp gy t) =
     (if button_pressed (buttons gp) (DPadRight_mask B) \<and> \<not> dpad_right_button_previously_pressed t
      then ledn_next (current_led5_state t) else current_led5_state t)
   \<and> y_button_previously_pressed (thruster_update g B gp gy t) =
       button_pressed (buttons gp) (Y_mask B)
   \<and> dpad_up_button_previously_pressed (thruster_update g B gp gy t) =
       button_pressed (buttons gp) (DPadUp_mask B)
   \<and> dpad_down_button_previously_pressed (thruster_update g B gp gy t) =
       button_pressed (buttons gp) (DPadDown_mask B)
   \<and> dpad_left_button_previously_pressed (thruster_update g B gp gy t) =
       button_pressed (buttons gp) (DPadLeft_mask B)
   \<and> dpad_right_button_previously_pressed (thruster_update g B gp gy t) =
       button_pressed (buttons gp) (DPadRight_mask B)
   \<and> led1_next LedOFF = LedON \<and> led1_next LedON = LedOFF
   \<and> ledn_next LedOFF = LedON1 \<and> ledn_next LedON1 = LedON2
   \<and> ledn_next LedON2 = LedMAX \<and> ledn_next LedMAX = LedOFF
   \<and> (st1 \<in> {LedOFF, LedON} \<longrightarrow> (led1_next ^^ 2) st1 = st1)
   \<and> (stn \<in> {LedOFF, LedON1, LedON2, LedMAX} \<longrightarrow> (ledn_next ^^ 4) stn = stn)
   \<and> current_led_state (run_updates B ticks t) =
       (led1_next ^^ rising_edges (y_button_previously_pressed t) (presses (Y_mask B) ticks))
         (current_led_state t)
   \<and> current_led2_state (run_updates B ticks t) =
       (ledn_next ^^ rising_edges (dpad_up_button_previously_pressed t)
                       (presses (DPadUp_mask B) ticks)) (current_led2_state t)
   \<and> current_led3_state (run_updates B ticks t) =
       (ledn_next ^^ rising_edges (dpad_down_button_previously_pressed t)
                       (presses (DPadDown_mask B) ticks)) (current_led3_state t)
   \<and> current_led4_state (run_updates B ticks t) =
       (ledn_next ^^ rising_edges (dpad_left_button_previously_pressed t)
                       (presses (DPadLeft_mask B) ticks)) (current_led4_state t)
   \<and> current_led5_state (run_updates B ticks t) =
       (ledn_next ^^ rising_edges (dpad_right_button_previously_pressed t)
                       (presses (DPadRight_mask B) ticks)) (current_led5_state t)"
  using led1_period [of st1] ledn_period [of stn]
  by (simp only: led_fields_thruster_update led_edge_def led_next_table
      run_updates_led1 run_updates_led2 run_updates_led3 run_updates_led4 run_updates_led5)
    simp

text \<open>Accessory 2 at ON1, its button (mask 1) released before: the readings pressed,
  released, pressed, pressed hold two rising edges and take the accessory to MAX.\<close>

theorem accessory_state_machine_witness:
  "LedON \<in> {LedOFF, LedON} \<and> (led1_next ^^ 2) LedON = LedON
   \<and> LedON1 \<in> {LedOFF, LedON1, LedON2, LedMAX} \<and> (ledn_next ^^ 4) LedON1 = LedON1
   \<and> current_led2_state
        (run_updates xinput_buttons
           [(AppConfig_default, GamepadData_zero\<lparr>buttons := 1\<rparr>, gyro_zero),
            (AppConfig_default, GamepadData_zero, gyro_zero),
            (AppConfig_default, GamepadData_zero\<lparr>buttons := 33\<rparr>, gyro_zero),
            (AppConfig_default, GamepadData_zero\<lparr>buttons := 1\<rparr>, gyro_zero)]
           (thruster0\<lparr>current_led2_state := LedON1\<rparr>)) = LedMAX"
  using accessory_state_machine [of AppConfig_default xinput_buttons GamepadData_zero gyro_zero
      "thruster0\<lparr>current_led2_state := LedON1\<rparr>" LedON LedON1
      "[(AppConfig_default, GamepadData_zero\<lparr>buttons := 1\<rparr>, gyro_zero),
        (AppConfig_default, GamepadData_zero, gyro_zero),
        (AppConfig_default, GamepadData_zero\<lparr>buttons := 33\<rparr>, gyro_zero),
        (AppConfig_default, GamepadData_zero\<lparr>buttons := 1\<rparr>, gyro_zero)]"]
  by (simp add: presses_def xinput_buttons_def GamepadData_zero_def thruster0_def
      button_pressed_def ledn_next_def led1_next_def numeral_2_eq_2)

end
